theory Spec2Isabelle
  imports Complex_Main
begin

section \<open>Data model\<close>

text \<open>
  The application keeps two MongoDB collections, Category and Item, and serves them
  through Express request handlers. Strings are modelled as \<open>string\<close>, read as the
  JavaScript code units below 256; on these the length reported by the validation
  library and by the schema is the number of characters.
\<close>

text \<open>
  A stored identifier is an ObjectId: twelve bytes, which \<open>toHexString\<close> (and so string
  interpolation) prints as 24 hexadecimal digits with small letters. The model keeps an
  ObjectId as that printed form.
\<close>

datatype object_id = ObjectId (toHexString: string)

text \<open>
  \<^verbatim>\<open>
  const CategorySchema = new mongoose.Schema({
    name: { type: String, required: true, maxLength: 100 },
    description: { type: String, required: true, maxLength: 100 },
  });
  \<close>
  A Category document has the implicit field \<open>_id\<close> and the two declared fields.
\<close>

record category =
  cat_id :: object_id
  cat_name :: string
  cat_description :: string

text \<open>
  \<^verbatim>\<open>
  CategorySchema.virtual('url').get(function () {
    return `/category/${this._id}`;
  });
  \<close>
\<close>

definition url :: "category \<Rightarrow> string" where
  "url c = ''/category/'' @ toHexString (cat_id c)"

text \<open>
  Modelled from the spec: the Item model (\<open>models/item.js\<close>) is required by the controller
  but is not among the sources. The spec gives an Item an identifier, a name, a
  description, a non-negative price, a non-negative integer stock, a reference to one
  Category identifier and an optional image reference. The handlers below read only the
  \<open>category\<close> field and project the fields \<open>name description price stock\<close>.
\<close>

record item =
  item_id :: object_id
  item_name :: string
  item_description :: string
  item_price :: rat
  item_stock :: nat
  item_category :: object_id
  item_image :: "string option"

text \<open>
  The result of \<open>Item.find(filter, 'name description price stock')\<close>: the selected
  fields, and \<open>_id\<close>, which a projection keeps unless it is excluded.
\<close>

record item_projection =
  proj_id :: object_id
  proj_name :: string
  proj_description :: string
  proj_price :: rat
  proj_stock :: nat

definition project :: "item \<Rightarrow> item_projection" where
  "project x = \<lparr>proj_id = item_id x, proj_name = item_name x,
     proj_description = item_description x, proj_price = item_price x,
     proj_stock = item_stock x\<rparr>"

text \<open>The database: both collections, each in its natural (insertion) order.\<close>

record store =
  categories :: "category list"
  items :: "item list"

section \<open>Errors and responses\<close>

text \<open>
  \<open>Error msg status\<close> is a JavaScript \<open>Error\<close> with its message and its \<open>status\<close>
  property when one was assigned. \<open>SchemaValidationError paths\<close> is the error
  with which \<open>save()\<close> rejects when the schema's validators fail, with the failing
  paths; it reaches the caller through \<open>next\<close> like any other failure of the store,
  and is not the list of field errors with which a form is shown again.
  \<open>DuplicateKey i\<close> is the server's rejection of an insert whose \<open>_id\<close> is taken.
  \<open>CastError v\<close> is the error with which a query rejects when the value \<open>v\<close> given for
  an ObjectId path cannot be cast to an ObjectId; it has no \<open>status\<close> property.
\<close>

datatype error =
  Error string "nat option"
  | SchemaValidationError "string list"
  | DuplicateKey object_id
  | CastError string

text \<open>One entry of \<open>validationResult(req).array()\<close>.\<close>

record field_error =
  err_path :: string
  err_msg :: string
  err_value :: string

text \<open>
  What a handler does with the response object, one constructor for each view it
  renders with the locals it passes,
      one for \<open>res.redirect\<close> and one for \<open>next(err)\<close>.
  The \<open>category\<close> local of the form and of the delete view may be absent or \<open>null\<close>
  (\<open>None\<close>). A handler's result is the store it leaves and the calls it made, in order.
\<close>

datatype response =
  Render_index string nat nat
  | Render_category_list string "category list"
  | Render_category_detail string category "item_projection list"
  | Render_category_form string "category option" "field_error list"
  | Render_category_delete string "category option" "item list"
  | Redirect string
  | Next error

type_synonym outcome = "store \<times> response list"

section \<open>The collections' operations\<close>

text \<open>
  A request carries an identifier as a string of its path. Every query on an ObjectId
  path casts the string first: a string of 24 hexadecimal digits, with small or capital
  letters, is the ObjectId with those digits; anything else is refused with a
  \<open>CastError\<close>. (Releases of the driver before version 6 also took a string of 12
  bytes; the model follows the current rule.)
\<close>

definition is_hex_digit :: "char \<Rightarrow> bool" where
  "is_hex_digit c =
     ((48::nat) \<le> of_char c \<and> of_char c \<le> (57::nat) \<or>
      (65::nat) \<le> of_char c \<and> of_char c \<le> (70::nat) \<or>
      (97::nat) \<le> of_char c \<and> of_char c \<le> (102::nat))"

definition hex_lower :: "char \<Rightarrow> char" where
  "hex_lower c =
     (if (65::nat) \<le> of_char c \<and> of_char c \<le> (70::nat)
      then char_of (of_char c + (32::nat)) else c)"

definition castObjectId :: "string \<Rightarrow> error + object_id" where
  "castObjectId v =
     (if length v = 24 \<and> list_all is_hex_digit v
      then Inr (ObjectId (map hex_lower v))
      else Inl (CastError v))"

definition countDocuments :: "'a list \<Rightarrow> nat" where
  "countDocuments docs = length docs"

text \<open>\<open>findOne({ _id: oid })\<close>,
    the query that \<open>findById\<close> runs once the id is cast.\<close>

definition findOne_id :: "category list \<Rightarrow> object_id \<Rightarrow> category option" where
  "findOne_id cs oid = find (\<lambda>c. cat_id c = oid) cs"

definition findById :: "category list \<Rightarrow> string \<Rightarrow> error + category option" where
  "findById cs v =
     (case castObjectId v of
        Inl err \<Rightarrow> Inl err
      | Inr oid \<Rightarrow> Inr (findOne_id cs oid))"

text \<open>
  \<open>Item.find({ category: id })\<close>. Modelled from the spec: the Item schema is not among
  the sources; its \<open>category\<close> path refers to a Category by identifier, so the value
  given for it is cast like \<open>_id\<close>.
\<close>

definition find_by_category :: "item list \<Rightarrow> string \<Rightarrow> error + item list" where
  "find_by_category xs v =
     (case castObjectId v of
        Inl err \<Rightarrow> Inl err
      | Inr oid \<Rightarrow> Inr (filter (\<lambda>x. item_category x = oid) xs))"

text \<open>
  \<open>Promise.all\<close> of two queries: both results, or the rejection of one of them. In the
  handlers below the two queries cast the same string, so when both reject they reject
  with the same error.
\<close>

definition Promise_all :: "error + 'a \<Rightarrow> error + 'b \<Rightarrow> error + 'a \<times> 'b" where
  "Promise_all p q =
     (case p of
        Inl err \<Rightarrow> Inl err
      | Inr a \<Rightarrow> (case q of Inl err \<Rightarrow> Inl err | Inr b \<Rightarrow> Inr (a, b)))"

text \<open>
  \<open>Category.findOne({ name: n }).collation({ locale: 'en', strength: 2 })\<close> returns the
  first document whose name the collation holds equal to \<open>n\<close>. The comparison is made by
  the database from the collation tables of the ICU library, which are not part of this
  repository; the model takes the relation of being equal under the collation as the
  argument \<open>coll\<close>.
\<close>

type_synonym collation = "string \<Rightarrow> string \<Rightarrow> bool"

definition findOne_name :: "collation \<Rightarrow> category list \<Rightarrow> string \<Rightarrow> category option" where
  "findOne_name coll cs n = find (\<lambda>c. coll (cat_name c) n) cs"

text \<open>
  Equality up to the case of the ASCII letters. A comparison of strength 2 does not
  distinguish letter case, so the collation of the code holds at least these strings
  equal. It serves as the collation of the examples.
\<close>

definition ascii_lower :: "char \<Rightarrow> char" where
  "ascii_lower c =
     (if (65::nat) \<le> of_char c \<and> of_char c \<le> (90::nat)
      then char_of (of_char c + (32::nat)) else c)"

definition ascii_case_equal :: collation where
  "ascii_case_equal a b = (map ascii_lower a = map ascii_lower b)"

text \<open>
  The schema's validators, which \<open>save()\<close> runs before it writes: a required string
  must not be empty, and \<open>maxLength: 100\<close> bounds its length. The result lists the
  failing paths.
\<close>

definition maxLength :: nat where
  "maxLength = 100"

definition path_ok :: "string \<Rightarrow> bool" where
  "path_ok v = (v \<noteq> [] \<and> length v \<le> maxLength)"

definition schema_errors :: "category \<Rightarrow> string list" where
  "schema_errors c =
     (if path_ok (cat_name c) then [] else [''name'']) @
     (if path_ok (cat_description c) then [] else [''description''])"

text \<open>
  \<open>category.save()\<close> of a new document: validate, then insert. The insert is refused
  when the identifier is already in the collection.
\<close>

definition save :: "store \<Rightarrow> category \<Rightarrow> error + store" where
  "save s c =
     (if schema_errors c \<noteq> [] then Inl (SchemaValidationError (schema_errors c))
      else if cat_id c \<in> set (map cat_id (categories s)) then Inl (DuplicateKey (cat_id c))
      else Inr (s\<lparr>categories := categories s @ [c]\<rparr>))"

text \<open>
  \<open>Category.findByIdAndDelete(id)\<close> casts the id and removes the first document with
  that \<open>_id\<close>, if any.
\<close>

fun delete_one :: "object_id \<Rightarrow> category list \<Rightarrow> category list" where
  "delete_one oid [] = []"
| "delete_one oid (c # cs) = (if cat_id c = oid then cs else c # delete_one oid cs)"

definition findByIdAndDelete :: "store \<Rightarrow> string \<Rightarrow> error + store" where
  "findByIdAndDelete s v =
     (case castObjectId v of
        Inl err \<Rightarrow> Inl err
      | Inr oid \<Rightarrow> Inr (s\<lparr>categories := delete_one oid (categories s)\<rparr>))"

text \<open>
  \<open>Category.findByIdAndUpdate(id, category)\<close> casts the id and sets, in the first
  document with that \<open>_id\<close>,
      the fields of the document passed as the update. No document
  is created when none matches, and the schema's validators are not run (neither
  \<open>upsert\<close> nor \<open>runValidators\<close> is given).
\<close>

fun update_one :: "object_id \<Rightarrow> category \<Rightarrow> category list \<Rightarrow> category list" where
  "update_one oid u [] = []"
| "update_one oid u (c # cs) =
     (if cat_id c = oid
      then c\<lparr>cat_id := cat_id u, cat_name := cat_name u,
             cat_description := cat_description u\<rparr> # cs
      else c # update_one oid u cs)"

definition findByIdAndUpdate :: "store \<Rightarrow> string \<Rightarrow> category \<Rightarrow> error + store" where
  "findByIdAndUpdate s v u =
     (case castObjectId v of
        Inl err \<Rightarrow> Inl err
      | Inr oid \<Rightarrow> Inr (s\<lparr>categories := update_one oid u (categories s)\<rparr>))"

section \<open>Validation and sanitization\<close>

text \<open>
  \<open>body(field, msg).trim().isLength({ min: 1 }).escape()\<close>: the chain trims the field,
  checks the trimmed value's length, then escapes it, and does all three whatever the
  check says. The sanitized value replaces the field in \<open>req.body\<close>.
\<close>

definition is_whitespace :: "char \<Rightarrow> bool" where
  "is_whitespace c = (of_char c \<in> {9, 10, 11, 12, 13, 32, 160 :: nat})"

definition ltrim :: "string \<Rightarrow> string" where
  "ltrim s = dropWhile is_whitespace s"

definition rtrim :: "string \<Rightarrow> string" where
  "rtrim s = rev (dropWhile is_whitespace (rev s))"

definition trim :: "string \<Rightarrow> string" where
  "trim s = rtrim (ltrim s)"

definition isLength_min :: "nat \<Rightarrow> string \<Rightarrow> bool" where
  "isLength_min m s = (m \<le> length s)"

definition escape_char :: "char \<Rightarrow> string" where
  "escape_char c =
     (if c = CHR ''&'' then ''&amp;''
      else if c = CHR 0x22 then ''&quot;''
      else if c = CHR 0x27 then ''&#x27;''
      else if c = CHR ''<'' then ''&lt;''
      else if c = CHR ''>'' then ''&gt;''
      else if c = CHR ''/'' then ''&#x2F;''
      else if c = CHR 0x5C then ''&#x5C;''
      else if c = CHR 0x60 then ''&#96;''
      else [c])"

definition escape :: "string \<Rightarrow> string" where
  "escape s = concat (map escape_char s)"

text \<open>The errors one chain adds, and the value it leaves in the body.\<close>

definition chain_errors :: "string \<Rightarrow> string \<Rightarrow> string \<Rightarrow> field_error list" where
  "chain_errors path msg raw =
     (if isLength_min 1 (trim raw) then []
      else [\<lparr>err_path = path, err_msg = msg, err_value = trim raw\<rparr>])"

definition sanitize :: "string \<Rightarrow> string" where
  "sanitize raw = escape (trim raw)"

text \<open>The form fields of a create or update request.\<close>

record body =
  name :: string
  description :: string

text \<open>Both chains run,
    the one for \<open>name\<close> first; \<open>validationResult\<close> has the errors of both.\<close>

definition validationResult :: "body \<Rightarrow> field_error list" where
  "validationResult b =
     chain_errors ''name'' ''Category name required'' (name b) @
     chain_errors ''description'' ''Category description required'' (description b)"

section \<open>The handlers\<close>

text \<open>
  Every handler but the two that post a form is wrapped in \<open>asyncHandler\<close>,
      and so is the
  last step of those two: a promise that rejects inside it is passed to \<open>next\<close>, and the
  rest of the handler does not run.
\<close>

text \<open>
  \<^verbatim>\<open>
  exports.index = asyncHandler(async (req, res, next) => {
    const [numItems, numCategories] = await Promise.all([
      Item.countDocuments({}).exec(),
      Category.countDocuments({}).exec(),
    ]);
    res.render('index', { title: 'Inventory App - Home',
      item_count: numItems, category_count: numCategories });
  });
  \<close>
\<close>

definition index :: "store \<Rightarrow> outcome" where
  "index s =
     (let numItems = countDocuments (items s);
          numCategories = countDocuments (categories s)
      in (s, [Render_index ''Inventory App - Home'' numItems numCategories]))"

definition category_list :: "store \<Rightarrow> outcome" where
  "category_list s = (s, [Render_category_list ''Category List'' (categories s)])"

text \<open>
  \<^verbatim>\<open>
  exports.category_detail = asyncHandler(async (req, res, next) => {
    const [category, itemsInCategory] = await Promise.all([
      Category.findById(req.params.id).exec(),
      Item.find({ category: req.params.id }, 'name description price stock').exec(),
    ]);
    if (category === null) {
      const err = new Error('Category not found');
      err.status = 404;
      return next(err);
    }
    res.render('category_detail', { title: 'Category Detail',
      category: category, category_items: itemsInCategory });
  });
  \<close>
\<close>

definition category_detail :: "store \<Rightarrow> string \<Rightarrow> outcome" where
  "category_detail s v =
     (case Promise_all (findById (categories s) v) (find_by_category (items s) v) of
        Inl err \<Rightarrow> (s, [Next err])
      | Inr (category, found) \<Rightarrow>
          (let itemsInCategory = map project found
           in case category of
                None \<Rightarrow> (s, [Next (Error ''Category not found'' (Some 404))])
              | Some c \<Rightarrow>
                  (s, [Render_category_detail ''Category Detail'' c itemsInCategory])))"

definition category_create_get :: "store \<Rightarrow> outcome" where
  "category_create_get s = (s, [Render_category_form ''Create Category'' None []])"

text \<open>
  \<^verbatim>\<open>
  exports.category_create_post = [
    body('name', 'Category name required').trim().isLength({ min: 1 }).escape(),
    body('description', 'Category description required').trim().isLength({ min: 1 }).escape(),
    asyncHandler(async (req, res, next) => {
      const errors = validationResult(req);
      const category = new Category({ name: req.body.name, description: req.body.description });
      if (!errors.isEmpty()) {
        res.render('category_form', { title: 'Create Category',
          category: category, errors: errors.array() });
        return;
      } else {
        const categoryExists = await Category.findOne({ name: req.body.name })
          .collation({ locale: 'en', strength: 2 }).exec();
        if (categoryExists) {
          res.redirect(categoryExists.url);
        } else {
          await category.save();
          res.redirect(category.url);
        }
      }
    }),
  ];
  \<close>
  \<open>new Category\<close> gives the document a newly generated identifier; the model takes it
  as the argument \<open>new_id\<close>.
\<close>

definition category_create_post :: "collation \<Rightarrow> store \<Rightarrow> object_id \<Rightarrow> body \<Rightarrow> outcome" where
  "category_create_post coll s new_id b =
     (let errors = validationResult b;
          category = \<lparr>cat_id = new_id, cat_name = sanitize (name b),
                      cat_description = sanitize (description b)\<rparr>
      in if errors \<noteq> []
         then (s, [Render_category_form ''Create Category'' (Some category) errors])
         else (case findOne_name coll (categories s) (sanitize (name b)) of
                 Some categoryExists \<Rightarrow> (s, [Redirect (url categoryExists)])
               | None \<Rightarrow>
                   (case save s category of
                      Inl err \<Rightarrow> (s, [Next err])
                    | Inr s' \<Rightarrow> (s', [Redirect (url category)]))))"

text \<open>
  \<^verbatim>\<open>
  exports.category_delete_get = asyncHandler(async (req, res, next) => {
    const [category, itemsInCategory] = await Promise.all([
      Category.findById(req.params.id).exec(),
      Item.find({ category: req.params.id }).exec(),
    ]);
    if (category === null) {
      res.redirect('/categories');
    }
    res.render('category_delete', { title: 'Delete Category',
      category: category, category_items: itemsInCategory });
  });
  \<close>
  The branch for an absent Category does not return, so the call of \<open>res.render\<close>
  follows the redirect.
\<close>

definition category_delete_get :: "store \<Rightarrow> string \<Rightarrow> outcome" where
  "category_delete_get s v =
     (case Promise_all (findById (categories s) v) (find_by_category (items s) v) of
        Inl err \<Rightarrow> (s, [Next err])
      | Inr (category, itemsInCategory) \<Rightarrow>
          (s, (if category = None then [Redirect ''/categories''] else []) @
              [Render_category_delete ''Delete Category'' category itemsInCategory]))"

text \<open>
  \<^verbatim>\<open>
  exports.category_delete_post = asyncHandler(async (req, res, next) => {
    const [category, itemsInCategory] = await Promise.all([
      Category.findById(req.params.id).exec(),
      Item.find({ category: req.params.id }).exec(),
    ]);
    if (itemsInCategory.length > 0) {
      res.render('category_delete', { title: 'Delete Category',
        category: category, category_items: itemsInCategory });
      return;
    } else {
      await Category.findByIdAndDelete(req.params.id);
      res.redirect('/categories');
    }
  });
  \<close>
\<close>

definition category_delete_post :: "store \<Rightarrow> string \<Rightarrow> outcome" where
  "category_delete_post s v =
     (case Promise_all (findById (categories s) v) (find_by_category (items s) v) of
        Inl err \<Rightarrow> (s, [Next err])
      | Inr (category, itemsInCategory) \<Rightarrow>
          if length itemsInCategory > 0
          then (s, [Render_category_delete ''Delete Category'' category itemsInCategory])
          else (case findByIdAndDelete s v of
                  Inl err \<Rightarrow> (s, [Next err])
                | Inr s' \<Rightarrow> (s', [Redirect ''/categories''])))"

definition category_update_get :: "store \<Rightarrow> string \<Rightarrow> outcome" where
  "category_update_get s v =
     (case findById (categories s) v of
        Inl err \<Rightarrow> (s, [Next err])
      | Inr None \<Rightarrow> (s, [Next (Error ''Category not found'' (Some 404))])
      | Inr (Some c) \<Rightarrow> (s, [Render_category_form ''Update Category'' (Some c) []]))"

text \<open>
  \<^verbatim>\<open>
  exports.category_update_post = [
    body('name', 'Category name required').trim().isLength({ min: 1 }).escape(),
    body('description', 'Category description required').trim().isLength({ min: 1 }).escape(),
    asyncHandler(async (req, res, next) => {
      const errors = validationResult(req);
      const category = new Category({ name: req.body.name,
        description: req.body.description, _id: req.params.id });
      if (!errors.isEmpty()) {
        res.render('category_form', { title: 'Update Category',
          category: category, errors: errors.array() });
        return;
      } else {
        await Category.findByIdAndUpdate(req.params.id, category).exec();
        res.redirect(category.url);
      }
    }),
  ];
  \<close>
  \<open>new Category\<close> first gives the document a newly generated identifier (\<open>new_id\<close>) and
  then sets the fields it is given: \<open>_id\<close> becomes the ObjectId cast from the path, and
  stays the generated one when the path does not cast.
\<close>

definition category_update_post :: "store \<Rightarrow> object_id \<Rightarrow> string \<Rightarrow> body \<Rightarrow> outcome" where
  "category_update_post s new_id v b =
     (let errors = validationResult b;
          category = \<lparr>cat_id = (case castObjectId v of Inl err \<Rightarrow> new_id | Inr oid \<Rightarrow> oid),
                      cat_name = sanitize (name b),
                      cat_description = sanitize (description b)\<rparr>
      in if errors \<noteq> []
         then (s, [Render_category_form ''Update Category'' (Some category) errors])
         else (case findByIdAndUpdate s v category of
                 Inl err \<Rightarrow> (s, [Next err])
               | Inr s' \<Rightarrow> (s', [Redirect (url category)])))"

section \<open>Properties of the operations\<close>

lemma of_char_ascii_lower:
  "(of_char (ascii_lower c) :: nat) =
     (if 65 \<le> (of_char c :: nat) \<and> (of_char c :: nat) \<le> 90 then of_char c + 32 else of_char c)"
  by (simp add: ascii_lower_def)

lemma is_whitespace_ascii_lower: "is_whitespace (ascii_lower c) = is_whitespace c"
  by (simp add: is_whitespace_def of_char_ascii_lower)

lemma ascii_lower_idem: "ascii_lower (ascii_lower c) = ascii_lower c"
proof -
  have "\<not> (65 \<le> (of_char (ascii_lower c) :: nat) \<and> (of_char (ascii_lower c) :: nat) \<le> 90)"
    by (simp add: of_char_ascii_lower)
  then show ?thesis unfolding ascii_lower_def [of "ascii_lower c"] by auto
qed

lemma escape_char_plain:
  "c \<notin> {CHR ''&'', CHR 0x22, CHR 0x27, CHR ''<'', CHR ''>'', CHR ''/'', CHR 0x5C, CHR 0x60}
   \<Longrightarrow> escape_char c = [c]"
  by (simp add: escape_char_def)

lemma letters_plain:
  assumes "65 \<le> (of_char c :: nat)" and "(of_char c :: nat) \<le> 122"
    and "(of_char c :: nat) \<noteq> 92" and "(of_char c :: nat) \<noteq> 96"
  shows "c \<notin> {CHR ''&'', CHR 0x22, CHR 0x27, CHR ''<'', CHR ''>'', CHR ''/'', CHR 0x5C,
      CHR 0x60}"
proof -
  have "c \<noteq> CHR ''&''" using assms(1) by auto
  moreover have "c \<noteq> CHR 0x22" using assms(1) by auto
  moreover have "c \<noteq> CHR 0x27" using assms(1) by auto
  moreover have "c \<noteq> CHR ''<''" using assms(1) by auto
  moreover have "c \<noteq> CHR ''>''" using assms(1) by auto
  moreover have "c \<noteq> CHR ''/''" using assms(1) by auto
  moreover have "c \<noteq> CHR 0x5C" using assms(3) by auto
  moreover have "c \<noteq> CHR 0x60" using assms(4) by auto
  ultimately show ?thesis by simp
qed

lemma escape_char_ascii_lower:
  "map ascii_lower (escape_char (ascii_lower c)) = map ascii_lower (escape_char c)"
proof (cases "65 \<le> (of_char c :: nat) \<and> (of_char c :: nat) \<le> 90")
  case True
  then have "escape_char c = [c]"
    by (intro escape_char_plain letters_plain) simp_all
  moreover from True have "escape_char (ascii_lower c) = [ascii_lower c]"
    by (intro escape_char_plain letters_plain) (simp_all add: of_char_ascii_lower)
  ultimately show ?thesis by (simp add: ascii_lower_idem)
next
  case False
  then have "ascii_lower c = c" by (auto simp: ascii_lower_def)
  then show ?thesis by simp
qed

lemma ascii_lower_escape: "map ascii_lower (escape s) = map ascii_lower (escape (map ascii_lower s))"
  by (induction s) (simp_all add: escape_def escape_char_ascii_lower)

lemma ascii_lower_ltrim: "map ascii_lower (ltrim s) = ltrim (map ascii_lower s)"
  by (simp add: ltrim_def dropWhile_map comp_def is_whitespace_ascii_lower)

lemma ascii_lower_rtrim: "map ascii_lower (rtrim s) = rtrim (map ascii_lower s)"
  by (simp add: rtrim_def dropWhile_map comp_def is_whitespace_ascii_lower rev_map)

lemma ascii_lower_trim: "map ascii_lower (trim s) = trim (map ascii_lower s)"
  by (simp add: trim_def ascii_lower_ltrim ascii_lower_rtrim)

lemma ascii_case_equal_sanitize:
  assumes "ascii_case_equal a b"
  shows "ascii_case_equal (sanitize a) (sanitize b)"
proof -
  from assms have "map ascii_lower (trim a) = map ascii_lower (trim b)"
    by (simp add: ascii_case_equal_def ascii_lower_trim)
  then have "map ascii_lower (escape (map ascii_lower (trim a))) = map ascii_lower (escape (map ascii_lower (trim b)))"
    by simp
  then show ?thesis
    unfolding ascii_case_equal_def sanitize_def
    by (simp only: ascii_lower_escape [symmetric])
qed

lemma ascii_case_equal_refl: "ascii_case_equal a a"
  by (simp add: ascii_case_equal_def)

lemma ascii_case_equal_sym: "ascii_case_equal a b \<Longrightarrow> ascii_case_equal b a"
  by (simp add: ascii_case_equal_def)

lemma ascii_case_equal_trans: "ascii_case_equal a b \<Longrightarrow> ascii_case_equal b c \<Longrightarrow> ascii_case_equal a c"
  by (simp add: ascii_case_equal_def)

lemma findOne_id_None_iff: "findOne_id cs i = None \<longleftrightarrow> i \<notin> cat_id ` set cs"
  by (auto simp: findOne_id_def find_None_iff)

lemma findOne_id_Some_D: "findOne_id cs i = Some c \<Longrightarrow> c \<in> set cs \<and> cat_id c = i"
  by (auto simp: findOne_id_def find_Some_iff)

lemma delete_one_absent: "findOne_id cs i = None \<Longrightarrow> delete_one i cs = cs"
  by (induction cs) (auto simp: findOne_id_def split: if_splits)

lemma delete_one_removes: "distinct (map cat_id cs) \<Longrightarrow> findOne_id (delete_one i cs) i = None"
proof (induction cs)
  case Nil
  show ?case by (simp add: findOne_id_def)
next
  case (Cons c cs)
  show ?case
  proof (cases "cat_id c = i")
    case True
    with Cons.prems have "i \<notin> cat_id ` set cs" by auto
    with True show ?thesis by (simp add: findOne_id_None_iff)
  next
    case False
    with Cons show ?thesis by (simp add: findOne_id_def)
  qed
qed

lemma delete_one_other: "j \<noteq> i \<Longrightarrow> findOne_id (delete_one i cs) j = findOne_id cs j"
  by (induction cs) (auto simp: findOne_id_def)

lemma update_one_absent: "findOne_id cs i = None \<Longrightarrow> update_one i u cs = cs"
  by (induction cs) (auto simp: findOne_id_def split: if_splits)

lemma update_one_ids: "cat_id u = i \<Longrightarrow> map cat_id (update_one i u cs) = map cat_id cs"
  by (induction cs) auto

lemma update_one_hit:
  "findOne_id cs i = Some c \<Longrightarrow> cat_id u = i \<Longrightarrow>
   findOne_id (update_one i u cs) i =
     Some (c\<lparr>cat_id := cat_id u, cat_name := cat_name u,
         cat_description := cat_description u\<rparr>)"
  by (induction cs) (auto simp: findOne_id_def split: if_splits)

lemma update_one_other:
  "j \<noteq> i \<Longrightarrow> cat_id u = i \<Longrightarrow> findOne_id (update_one i u cs) j = findOne_id cs j"
  by (induction cs) (auto simp: findOne_id_def)

lemma chain_errors_empty_iff: "chain_errors p m raw = [] \<longleftrightarrow> 1 \<le> length (trim raw)"
  by (simp add: chain_errors_def isLength_min_def)

lemma validationResult_empty_iff:
  "validationResult b = [] \<longleftrightarrow> 1 \<le> length (trim (name b)) \<and> 1 \<le> length (trim (description b))"
  by (simp add: validationResult_def chain_errors_empty_iff)

lemma escape_char_nonempty: "escape_char c \<noteq> []"
  by (simp add: escape_char_def)

lemma escape_empty_iff: "escape s = [] \<longleftrightarrow> s = []"
  by (cases s) (simp_all add: escape_def escape_char_nonempty)

lemma sanitize_empty_iff: "sanitize raw = [] \<longleftrightarrow> trim raw = []"
  by (simp add: sanitize_def escape_empty_iff)

lemma chain_errors_cases:
  "chain_errors p m raw =
     (if trim raw = [] then [\<lparr>err_path = p, err_msg = m, err_value = []\<rparr>] else [])"
  by (cases "trim raw") (simp_all add: chain_errors_def isLength_min_def)

lemma path_ok_sanitize:
  "trim raw \<noteq> [] \<Longrightarrow> path_ok (sanitize raw) \<longleftrightarrow> length (sanitize raw) \<le> 100"
  by (simp add: path_ok_def maxLength_def sanitize_empty_iff)

lemma validationResult_ok_D:
  "validationResult b = [] \<Longrightarrow> trim (name b) \<noteq> [] \<and> trim (description b) \<noteq> []"
  by (auto simp: validationResult_empty_iff)

lemma save_schema_errors:
  assumes "trim (name b) \<noteq> []" and "trim (description b) \<noteq> []"
  shows "schema_errors \<lparr>cat_id = new_id, cat_name = sanitize (name b),
                          cat_description = sanitize (description b)\<rparr> =
     (if 100 < length (sanitize (name b)) then [''name''] else []) @
     (if 100 < length (sanitize (description b)) then [''description''] else [])"
  using assms by (simp add: schema_errors_def path_ok_sanitize not_le)


lemma castObjectId_error: "castObjectId v = Inl e \<Longrightarrow> e = CastError v"
  by (auto simp: castObjectId_def split: if_splits)

lemma Promise_all_cast_ok:
  "castObjectId v = Inr oid \<Longrightarrow>
   Promise_all (findById cs v) (find_by_category xs v) =
     Inr (findOne_id cs oid, filter (\<lambda>x. item_category x = oid) xs)"
  by (simp add: Promise_all_def findById_def find_by_category_def)

lemma Promise_all_cast_error:
  "castObjectId v = Inl e \<Longrightarrow> Promise_all (findById cs v) (find_by_category xs v) = Inl e"
  by (simp add: Promise_all_def findById_def)

lemma find_first_split:
  "find P xs = Some x \<longleftrightarrow> (\<exists>ys zs. xs = ys @ x # zs \<and> P x \<and> (\<forall>y\<in>set ys. \<not> P y))"
proof (induction xs)
  case Nil
  show ?case by simp
next
  case (Cons a xs)
  show ?case
  proof (cases "P a")
    case True
    have "(\<exists>ys zs. a # xs = ys @ x # zs \<and> P x \<and> (\<forall>y\<in>set ys. \<not> P y)) \<longleftrightarrow> a = x"
    proof
      assume "\<exists>ys zs. a # xs = ys @ x # zs \<and> P x \<and> (\<forall>y\<in>set ys. \<not> P y)"
      then obtain ys zs where *: "a # xs = ys @ x # zs" "\<forall>y\<in>set ys. \<not> P y" by blast
      with True show "a = x" by (cases ys) auto
    next
      assume "a = x"
      with True have "a # xs = [] @ x # xs \<and> P x \<and> (\<forall>y\<in>set []. \<not> P y)" by simp
      then show "\<exists>ys zs. a # xs = ys @ x # zs \<and> P x \<and> (\<forall>y\<in>set ys. \<not> P y)" by blast
    qed
    with True show ?thesis by simp
  next
    case False
    have "(\<exists>ys zs. a # xs = ys @ x # zs \<and> P x \<and> (\<forall>y\<in>set ys. \<not> P y)) \<longleftrightarrow>
          (\<exists>ys zs. xs = ys @ x # zs \<and> P x \<and> (\<forall>y\<in>set ys. \<not> P y))"
    proof
      assume "\<exists>ys zs. a # xs = ys @ x # zs \<and> P x \<and> (\<forall>y\<in>set ys. \<not> P y)"
      then obtain ys zs where *: "a # xs = ys @ x # zs" "P x" "\<forall>y\<in>set ys. \<not> P y" by blast
      with False obtain ys' where "ys = a # ys'" by (cases ys) auto
      with * have "xs = ys' @ x # zs \<and> P x \<and> (\<forall>y\<in>set ys'. \<not> P y)" by simp
      then show "\<exists>ys zs. xs = ys @ x # zs \<and> P x \<and> (\<forall>y\<in>set ys. \<not> P y)" by blast
    next
      assume "\<exists>ys zs. xs = ys @ x # zs \<and> P x \<and> (\<forall>y\<in>set ys. \<not> P y)"
      then obtain ys zs where "xs = ys @ x # zs" "P x" "\<forall>y\<in>set ys. \<not> P y" by blast
      with False have "a # xs = (a # ys) @ x # zs \<and> P x \<and> (\<forall>y\<in>set (a # ys). \<not> P y)"
        by simp
      then show "\<exists>ys zs. a # xs = ys @ x # zs \<and> P x \<and> (\<forall>y\<in>set ys. \<not> P y)" by blast
    qed
    with False Cons.IH show ?thesis by simp
  qed
qed

lemma findOne_name_first:
  "findOne_name coll cs n = Some c \<longleftrightarrow>
     (\<exists>ys zs. cs = ys @ c # zs \<and> coll (cat_name c) n \<and> (\<forall>y\<in>set ys. \<not> coll (cat_name y) n))"
  unfolding findOne_name_def by (rule find_first_split)

lemma findOne_name_None_iff:
  "findOne_name coll cs n = None \<longleftrightarrow> (\<forall>c\<in>set cs. \<not> coll (cat_name c) n)"
  by (auto simp: findOne_name_def find_None_iff)

lemma findOne_name_Some_D:
  "findOne_name coll cs n = Some c \<Longrightarrow> c \<in> set cs \<and> coll (cat_name c) n"
  by (auto simp: findOne_name_def find_Some_iff)

lemma findOne_name_last:
  "findOne_name coll cs n = None \<Longrightarrow> coll (cat_name c) n \<Longrightarrow>
   findOne_name coll (cs @ [c]) n = Some c"
  unfolding findOne_name_def by (induction cs) (auto split: if_splits)

lemma create_post_existing:
  assumes "validationResult b = []"
    and "findOne_name coll (categories s) (sanitize (name b)) = Some c"
  shows "category_create_post coll s new_id b = (s, [Redirect (url c)])"
  using assms by (simp add: category_create_post_def Let_def)

lemma create_post_new:
  assumes "validationResult b = []"
    and "findOne_name coll (categories s) (sanitize (name b)) = None"
  shows "category_create_post coll s new_id b =
     (case save s \<lparr>cat_id = new_id, cat_name = sanitize (name b),
                      cat_description = sanitize (description b)\<rparr> of
        Inl err \<Rightarrow> (s, [Next err])
      | Inr s' \<Rightarrow> (s', [Redirect (''/category/'' @ toHexString new_id)]))"
  using assms by (simp add: category_create_post_def Let_def url_def split: sum.splits)

lemma create_post_saved:
  assumes ok: "validationResult b = []"
    and nomatch: "\<forall>c\<in>set (categories s). \<not> coll (cat_name c) (sanitize (name b))"
    and len: "length (sanitize (name b)) \<le> 100" "length (sanitize (description b)) \<le> 100"
    and fresh: "new_id \<notin> cat_id ` set (categories s)"
  shows "category_create_post coll s new_id b =
     (s\<lparr>categories := categories s @
           [\<lparr>cat_id = new_id, cat_name = sanitize (name b),
              cat_description = sanitize (description b)\<rparr>]\<rparr>,
      [Redirect (''/category/'' @ toHexString new_id)])"
proof -
  from ok have ne: "trim (name b) \<noteq> []" "trim (description b) \<noteq> []"
    by (simp_all add: validationResult_ok_D)
  from nomatch have none: "findOne_name coll (categories s) (sanitize (name b)) = None"
    by (simp add: findOne_name_None_iff)
  from ne len have "schema_errors \<lparr>cat_id = new_id, cat_name = sanitize (name b),
      cat_description = sanitize (description b)\<rparr> = []"
    by (simp add: save_schema_errors)
  with fresh have "save s \<lparr>cat_id = new_id, cat_name = sanitize (name b),
      cat_description = sanitize (description b)\<rparr> =
    Inr (s\<lparr>categories := categories s @
           [\<lparr>cat_id = new_id, cat_name = sanitize (name b),
              cat_description = sanitize (description b)\<rparr>]\<rparr>)"
    by (simp add: save_def)
  with create_post_new [OF ok none] show ?thesis by simp
qed

lemma create_post_rejected:
  assumes ok: "validationResult b = []"
    and nomatch: "\<forall>c\<in>set (categories s). \<not> coll (cat_name c) (sanitize (name b))"
    and len: "100 < length (sanitize (name b)) \<or> 100 < length (sanitize (description b))"
  shows "category_create_post coll s new_id b =
     (s, [Next (SchemaValidationError
        ((if 100 < length (sanitize (name b)) then [''name''] else []) @
         (if 100 < length (sanitize (description b)) then [''description''] else [])))])"
proof -
  from ok have ne: "trim (name b) \<noteq> []" "trim (description b) \<noteq> []"
    by (simp_all add: validationResult_ok_D)
  from nomatch have none: "findOne_name coll (categories s) (sanitize (name b)) = None"
    by (simp add: findOne_name_None_iff)
  let ?c = "\<lparr>cat_id = new_id, cat_name = sanitize (name b),
      cat_description = sanitize (description b)\<rparr>"
  from len have "schema_errors ?c \<noteq> []"
    unfolding save_schema_errors [OF ne] by auto
  then have "save s ?c = Inl (SchemaValidationError (schema_errors ?c))"
    by (simp add: save_def)
  with create_post_new [OF ok none] show ?thesis
    by (simp add: save_schema_errors [OF ne])
qed

lemma category_detail_cast_ok:
  "castObjectId v = Inr oid \<Longrightarrow>
   category_detail s v =
     (case findOne_id (categories s) oid of
        None \<Rightarrow> (s, [Next (Error ''Category not found'' (Some 404))])
      | Some c \<Rightarrow>
          (s, [Render_category_detail ''Category Detail'' c
                 (map project (filter (\<lambda>x. item_category x = oid) (items s)))]))"
  by (simp add: category_detail_def Promise_all_cast_ok)

lemma category_detail_cast_error:
  "castObjectId v = Inl e \<Longrightarrow> category_detail s v = (s, [Next e])"
  by (simp add: category_detail_def Promise_all_cast_error)

lemma delete_post_cast_ok:
  "castObjectId v = Inr oid \<Longrightarrow>
   category_delete_post s v =
     (if filter (\<lambda>x. item_category x = oid) (items s) \<noteq> []
      then (s, [Render_category_delete ''Delete Category'' (findOne_id (categories s) oid)
                  (filter (\<lambda>x. item_category x = oid) (items s))])
      else (s\<lparr>categories := delete_one oid (categories s)\<rparr>,
          [Redirect ''/categories'']))"
  by (simp add: category_delete_post_def Promise_all_cast_ok findByIdAndDelete_def)

lemma delete_post_cast_error:
  "castObjectId v = Inl e \<Longrightarrow> category_delete_post s v = (s, [Next e])"
  by (simp add: category_delete_post_def Promise_all_cast_error)

lemma update_post_cast_ok:
  "validationResult b = [] \<Longrightarrow> castObjectId v = Inr oid \<Longrightarrow>
   category_update_post s new_id v b =
     (s\<lparr>categories := update_one oid
           \<lparr>cat_id = oid, cat_name = sanitize (name b),
              cat_description = sanitize (description b)\<rparr> (categories s)\<rparr>,
      [Redirect (''/category/'' @ toHexString oid)])"
  by (simp add: category_update_post_def Let_def findByIdAndUpdate_def url_def)

lemma update_post_cast_error:
  "validationResult b = [] \<Longrightarrow> castObjectId v = Inl e \<Longrightarrow>
   category_update_post s new_id v b = (s, [Next e])"
  by (simp add: category_update_post_def Let_def findByIdAndUpdate_def)

lemma equivp_ascii_case_equal: "equivp ascii_case_equal"
  by (intro equivpI reflpI sympI transpI) (simp_all add: ascii_case_equal_def)

section \<open>Validation of the form fields\<close>

text \<open>
  C4, as the handlers have it: a field passes the validation chain of create and of
  update exactly when its trimmed value has at least one character; the chain checks no
  maximum. A request with a failing field gets the form back with the field errors and
  the store is not written. The schema's maximum of 100 characters is checked when
  \<open>save()\<close> runs, on the sanitized (trimmed and escaped) values: a create request that
  passed the chain and matched no stored name, with a sanitized name or description of
  more than 100 characters, writes nothing and the rejection of \<open>save()\<close> is passed to
  \<open>next\<close>; it is not a form with field errors. This holds whatever the collation is.
\<close>

theorem validation_checks_presence_only:
  "(chain_errors ''name'' ''Category name required'' (name b) = []
      \<longleftrightarrow> 1 \<le> length (trim (name b))) \<and>
   (chain_errors ''description'' ''Category description required'' (description b) = []
      \<longleftrightarrow> 1 \<le> length (trim (description b))) \<and>
   (validationResult b = []
      \<longleftrightarrow> 1 \<le> length (trim (name b)) \<and> 1 \<le> length (trim (description b))) \<and>
   (validationResult b \<noteq> [] \<longrightarrow>
      (\<exists>c. category_create_post coll s new_id b =
             (s, [Render_category_form ''Create Category'' c (validationResult b)])) \<and>
      (\<exists>c. category_update_post s new_id v b =
             (s, [Render_category_form ''Update Category'' c (validationResult b)]))) \<and>
   (validationResult b = [] \<longrightarrow>
      (\<forall>c\<in>set (categories s). \<not> coll (cat_name c) (sanitize (name b))) \<longrightarrow>
      100 < length (sanitize (name b)) \<or> 100 < length (sanitize (description b)) \<longrightarrow>
      category_create_post coll s new_id b =
        (s, [Next (SchemaValidationError
           ((if 100 < length (sanitize (name b)) then [''name''] else []) @
            (if 100 < length (sanitize (description b)) then [''description''] else [])))]))"
proof (intro conjI impI)
  show "chain_errors ''name'' ''Category name required'' (name b) = []
      \<longleftrightarrow> 1 \<le> length (trim (name b))"
    by (rule chain_errors_empty_iff)
  show "chain_errors ''description'' ''Category description required'' (description b) = []
      \<longleftrightarrow> 1 \<le> length (trim (description b))"
    by (rule chain_errors_empty_iff)
  show "validationResult b = []
      \<longleftrightarrow> 1 \<le> length (trim (name b)) \<and> 1 \<le> length (trim (description b))"
    by (rule validationResult_empty_iff)
next
  assume "validationResult b \<noteq> []"
  then show "\<exists>c. category_create_post coll s new_id b =
             (s, [Render_category_form ''Create Category'' c (validationResult b)])"
    by (simp add: category_create_post_def Let_def)
next
  assume "validationResult b \<noteq> []"
  then show "\<exists>c. category_update_post s new_id v b =
             (s, [Render_category_form ''Update Category'' c (validationResult b)])"
    by (simp add: category_update_post_def Let_def)
next
  assume "validationResult b = []"
    and "\<forall>c\<in>set (categories s). \<not> coll (cat_name c) (sanitize (name b))"
    and "100 < length (sanitize (name b)) \<or> 100 < length (sanitize (description b))"
  then show "category_create_post coll s new_id b =
        (s, [Next (SchemaValidationError
           ((if 100 < length (sanitize (name b)) then [''name''] else []) @
            (if 100 < length (sanitize (description b)) then [''description''] else [])))])"
    by (rule create_post_rejected)
qed

text \<open>
  The theorem at a name of one space, which fails the chain, and at a name of 101
  letters, which passes it and is rejected by \<open>save()\<close>.
\<close>

theorem validation_checks_presence_only_witness:
  "validationResult \<lparr>name = '' '', description = ''d''\<rparr> \<noteq> [] \<and>
   (\<exists>c. category_create_post ascii_case_equal \<lparr>categories = [], items = []\<rparr>
          (ObjectId ''65a000000000000000000001'') \<lparr>name = '' '',
              description = ''d''\<rparr> =
        (\<lparr>categories = [], items = []\<rparr>,
         [Render_category_form ''Create Category'' c
            [\<lparr>err_path = ''name'', err_msg = ''Category name required'',
                err_value = []\<rparr>]])) \<and>
   validationResult \<lparr>name = ''aaaaaaaaaaaaaaaaaaaaaaaaaaaaaaaaaaaaaaaaaaaaaaaaaaaaaaaaaaaaaaaaaaaaaaaaaaaaaaaaaaaaaaaaaaaaaaaaaaaaa'', description = ''d''\<rparr> = [] \<and>
   100 < length (sanitize ''aaaaaaaaaaaaaaaaaaaaaaaaaaaaaaaaaaaaaaaaaaaaaaaaaaaaaaaaaaaaaaaaaaaaaaaaaaaaaaaaaaaaaaaaaaaaaaaaaaaaa'') \<and>
   category_create_post ascii_case_equal \<lparr>categories = [],
       items = []\<rparr> (ObjectId ''65a000000000000000000001'')
       \<lparr>name = ''aaaaaaaaaaaaaaaaaaaaaaaaaaaaaaaaaaaaaaaaaaaaaaaaaaaaaaaaaaaaaaaaaaaaaaaaaaaaaaaaaaaaaaaaaaaaaaaaaaaaa'', description = ''d''\<rparr> =
     (\<lparr>categories = [], items = []\<rparr>, [Next (SchemaValidationError [''name''])])"
proof -
  have bad: "validationResult \<lparr>name = '' '', description = ''d''\<rparr> =
      [\<lparr>err_path = ''name'', err_msg = ''Category name required'', err_value = []\<rparr>]"
    by code_simp
  have ok: "validationResult \<lparr>name = ''aaaaaaaaaaaaaaaaaaaaaaaaaaaaaaaaaaaaaaaaaaaaaaaaaaaaaaaaaaaaaaaaaaaaaaaaaaaaaaaaaaaaaaaaaaaaaaaaaaaaa'', description = ''d''\<rparr> = []"
    by code_simp
  have long: "length (sanitize ''aaaaaaaaaaaaaaaaaaaaaaaaaaaaaaaaaaaaaaaaaaaaaaaaaaaaaaaaaaaaaaaaaaaaaaaaaaaaaaaaaaaaaaaaaaaaaaaaaaaaa'') = 101" and short: "length (sanitize ''d'') = 1"
    by code_simp+
  from validation_checks_presence_only
         [of "\<lparr>name = '' '',
             description = ''d''\<rparr>" ascii_case_equal "\<lparr>categories = [],
                 items = []\<rparr>"
             "ObjectId ''65a000000000000000000001''" "''abc''"]
       validation_checks_presence_only
         [of "\<lparr>name = ''aaaaaaaaaaaaaaaaaaaaaaaaaaaaaaaaaaaaaaaaaaaaaaaaaaaaaaaaaaaaaaaaaaaaaaaaaaaaaaaaaaaaaaaaaaaaaaaaaaaaa'', description = ''d''\<rparr>" ascii_case_equal
             "\<lparr>categories = [],
                 items = []\<rparr>" "ObjectId ''65a000000000000000000001''" "''abc''"]
  show ?thesis
    unfolding bad ok by (simp add: long short)
qed

text \<open>
  C4 does not hold with the maximum inside the validation: that a field passes only if
  its trimmed length is at most 100, and that a longer one yields the form with field
  errors rather than a failure of the store, fails at a name of 101 letters. The chain
  reports no error, and the create handler ends with the rejection of \<open>save()\<close>.
\<close>

theorem max_length_counterexample:
  "validationResult \<lparr>name = ''aaaaaaaaaaaaaaaaaaaaaaaaaaaaaaaaaaaaaaaaaaaaaaaaaaaaaaaaaaaaaaaaaaaaaaaaaaaaaaaaaaaaaaaaaaaaaaaaaaaaa'', description = ''d''\<rparr> = [] \<and>
   length (trim ''aaaaaaaaaaaaaaaaaaaaaaaaaaaaaaaaaaaaaaaaaaaaaaaaaaaaaaaaaaaaaaaaaaaaaaaaaaaaaaaaaaaaaaaaaaaaaaaaaaaaa'') = 101 \<and>
   category_create_post ascii_case_equal \<lparr>categories = [],
       items = []\<rparr> (ObjectId ''65a000000000000000000001'')
       \<lparr>name = ''aaaaaaaaaaaaaaaaaaaaaaaaaaaaaaaaaaaaaaaaaaaaaaaaaaaaaaaaaaaaaaaaaaaaaaaaaaaaaaaaaaaaaaaaaaaaaaaaaaaaa'', description = ''d''\<rparr> =
     (\<lparr>categories = [], items = []\<rparr>, [Next (SchemaValidationError [''name''])])"
  by code_simp

text \<open>
  C6: both chains run whatever the other reports, so the error list has an entry for
  each field whose trimmed value is empty, the one for \<open>name\<close> first. When the list is
  not empty, create and update render the form again with the whole list and with a
  Category document holding the sanitized fields (under the new id, or for update
  under the ObjectId cast from the request path when it casts), and the store is
  returned as it was.
\<close>

theorem validation_failure_redisplays_form:
  "validationResult b =
     (if trim (name b) = []
      then [\<lparr>err_path = ''name'', err_msg = ''Category name required'',
          err_value = []\<rparr>]
      else []) @
     (if trim (description b) = []
      then [\<lparr>err_path = ''description'', err_msg = ''Category description required'',
              err_value = []\<rparr>]
      else []) \<and>
   (validationResult b \<noteq> [] \<longrightarrow>
      category_create_post coll s new_id b =
        (s, [Render_category_form ''Create Category''
               (Some \<lparr>cat_id = new_id, cat_name = sanitize (name b),
                       cat_description = sanitize (description b)\<rparr>)
               (validationResult b)]) \<and>
      category_update_post s new_id v b =
        (s, [Render_category_form ''Update Category''
               (Some \<lparr>cat_id = (case castObjectId v of Inl err \<Rightarrow> new_id | Inr oid \<Rightarrow> oid),
                       cat_name = sanitize (name b),
                       cat_description = sanitize (description b)\<rparr>)
               (validationResult b)]))"
  by (simp add: validationResult_def chain_errors_cases category_create_post_def
      category_update_post_def Let_def)

text \<open>
  The theorem at a create request with both fields blank, and at an update request
  whose description is blank and whose name is escaped.
\<close>

theorem validation_failure_witness:
  "validationResult \<lparr>name = ''  '', description = []\<rparr> =
     [\<lparr>err_path = ''name'', err_msg = ''Category name required'', err_value = []\<rparr>,
      \<lparr>err_path = ''description'', err_msg = ''Category description required'',
          err_value = []\<rparr>] \<and>
   category_create_post ascii_case_equal \<lparr>categories = [], items = []\<rparr>
       (ObjectId ''65a000000000000000000001'') \<lparr>name = ''  '', description = []\<rparr> =
     (\<lparr>categories = [], items = []\<rparr>,
      [Render_category_form ''Create Category''
         (Some \<lparr>cat_id = ObjectId ''65a000000000000000000001'', cat_name = [],
             cat_description = []\<rparr>)
         [\<lparr>err_path = ''name'', err_msg = ''Category name required'', err_value = []\<rparr>,
          \<lparr>err_path = ''description'', err_msg = ''Category description required'',
              err_value = []\<rparr>]]) \<and>
   category_update_post
        \<lparr>categories = [\<lparr>cat_id = ObjectId ''65a000000000000000000001'',
          cat_name = ''Toys'', cat_description = ''For children''\<rparr>],
          items = []\<rparr>
       (ObjectId ''65a000000000000000000009'') ''65A000000000000000000001'' \<lparr>name = ''<b>'', description = '' ''\<rparr> =
     (
        \<lparr>categories = [\<lparr>cat_id = ObjectId ''65a000000000000000000001'',
          cat_name = ''Toys'', cat_description = ''For children''\<rparr>],
          items = []\<rparr>,
      [Render_category_form ''Update Category''
         (Some \<lparr>cat_id = ObjectId ''65a000000000000000000001'', cat_name = ''&lt;b&gt;'',
             cat_description = []\<rparr>)
         [\<lparr>err_path = ''description'', err_msg = ''Category description required'',
             err_value = []\<rparr>]])"
proof -
  have t1: "trim ''  '' = []" and t2: "trim [] = []" and t3: "trim '' '' = []"
    and t4: "trim ''<b>'' = ''<b>''"
    by code_simp+
  have s1: "sanitize ''  '' = []" and s2: "sanitize [] = []" and s3: "sanitize '' '' = []"
    and s4: "sanitize ''<b>'' = ''&lt;b&gt;''"
    by code_simp+
  have c: "castObjectId ''65A000000000000000000001'' = Inr (ObjectId ''65a000000000000000000001'')" by code_simp
  from validation_failure_redisplays_form
         [of "\<lparr>name = ''  '',
             description = []\<rparr>" ascii_case_equal "\<lparr>categories = [],
                 items = []\<rparr>"
             "ObjectId ''65a000000000000000000001''" "''abc''"]
       validation_failure_redisplays_form
         [of "\<lparr>name = ''<b>'', description = '' ''\<rparr>" ascii_case_equal
             "\<lparr>categories = [\<lparr>cat_id = ObjectId ''65a000000000000000000001'',
                 cat_name = ''Toys'', cat_description = ''For children''\<rparr>],
                     items = []\<rparr>"
             "ObjectId ''65a000000000000000000009''" "''65A000000000000000000001''"]
  show ?thesis by (simp add: t1 t2 t3 t4 s1 s2 s3 s4 c)
qed

section \<open>Category create\<close>

text \<open>
  C1, as the handler has it. Take a create request that passes validation, and let
  \<open>coll\<close> be the equality of the collation. If a stored Category has a name that \<open>coll\<close>
  holds equal to the sanitized name of the request, the handler writes nothing and
  redirects to the detail page of the first such Category of the collection. If none
  has, and the sanitized name and description are at most 100 characters long, and the
  newly generated id is not in the collection, the handler appends exactly one
  document, with the new id and the sanitized fields, and redirects to its detail page.
  A second valid request whose sanitized name the collation, an equivalence relation,
  holds equal to that of the first then writes nothing and redirects to the same page,
  and the collection holds exactly one Category with that name. Two names that differ
  only in the case of ASCII letters have sanitized names that every collation ignoring
  that case holds equal.
\<close>

theorem create_idempotent_by_name:
  assumes ok: "validationResult b = []"
  shows
   "((\<exists>c\<in>set (categories s). coll (cat_name c) (sanitize (name b))) \<longrightarrow>
       (\<exists>ys c zs. categories s = ys @ c # zs \<and>
          (\<forall>y\<in>set ys. \<not> coll (cat_name y) (sanitize (name b))) \<and>
          coll (cat_name c) (sanitize (name b)) \<and>
          category_create_post coll s new_id b = (s, [Redirect (url c)]))) \<and>
    ((\<forall>c\<in>set (categories s). \<not> coll (cat_name c) (sanitize (name b))) \<longrightarrow>
       length (sanitize (name b)) \<le> 100 \<longrightarrow> length (sanitize (description b)) \<le> 100 \<longrightarrow>
       new_id \<notin> cat_id ` set (categories s) \<longrightarrow>
       category_create_post coll s new_id b =
         (s\<lparr>categories := categories s @
               [\<lparr>cat_id = new_id, cat_name = sanitize (name b),
                  cat_description = sanitize (description b)\<rparr>]\<rparr>,
          [Redirect (''/category/'' @ toHexString new_id)]) \<and>
       (\<forall>b2 id2. equivp coll \<longrightarrow> validationResult b2 = [] \<longrightarrow>
          coll (sanitize (name b2)) (sanitize (name b)) \<longrightarrow>
          category_create_post coll (fst (category_create_post coll s new_id b)) id2 b2 =
            (fst (category_create_post coll s new_id b),
             [Redirect (''/category/'' @ toHexString new_id)]) \<and>
          length (filter (\<lambda>c. coll (cat_name c) (sanitize (name b)))
                    (categories (fst (category_create_post coll
                       (fst (category_create_post coll s new_id b)) id2 b2)))) = 1)) \<and>
    (\<forall>b2. (\<forall>x y. ascii_case_equal x y \<longrightarrow> coll x y) \<longrightarrow>
       ascii_case_equal (name b2) (name b) \<longrightarrow>
       coll (sanitize (name b2)) (sanitize (name b)))"
proof (intro conjI impI)
  assume "\<exists>c\<in>set (categories s). coll (cat_name c) (sanitize (name b))"
  then have "findOne_name coll (categories s) (sanitize (name b)) \<noteq> None"
    by (simp add: findOne_name_None_iff)
  then obtain c where c: "findOne_name coll (categories s) (sanitize (name b)) = Some c"
    by blast
  then obtain ys zs where "categories s = ys @ c # zs"
    and "coll (cat_name c) (sanitize (name b))"
    and "\<forall>y\<in>set ys. \<not> coll (cat_name y) (sanitize (name b))"
    unfolding findOne_name_first by blast
  with create_post_existing [OF ok c]
  show "\<exists>ys c zs. categories s = ys @ c # zs \<and>
          (\<forall>y\<in>set ys. \<not> coll (cat_name y) (sanitize (name b))) \<and>
          coll (cat_name c) (sanitize (name b)) \<and>
          category_create_post coll s new_id b = (s, [Redirect (url c)])"
    by blast
next
  let ?new = "\<lparr>cat_id = new_id, cat_name = sanitize (name b),
                 cat_description = sanitize (description b)\<rparr>"
  let ?s1 = "s\<lparr>categories := categories s @ [?new]\<rparr>"
  assume nomatch: "\<forall>c\<in>set (categories s). \<not> coll (cat_name c) (sanitize (name b))"
    and len: "length (sanitize (name b)) \<le> 100" "length (sanitize (description b)) \<le> 100"
    and fresh: "new_id \<notin> cat_id ` set (categories s)"
  have first: "category_create_post coll s new_id b =
      (?s1, [Redirect (''/category/'' @ toHexString new_id)])"
    using ok nomatch len fresh by (rule create_post_saved)
  show "category_create_post coll s new_id b =
      (?s1, [Redirect (''/category/'' @ toHexString new_id)])"
    by (rule first)
  show "\<forall>b2 id2. equivp coll \<longrightarrow> validationResult b2 = [] \<longrightarrow>
          coll (sanitize (name b2)) (sanitize (name b)) \<longrightarrow>
          category_create_post coll (fst (category_create_post coll s new_id b)) id2 b2 =
            (fst (category_create_post coll s new_id b),
             [Redirect (''/category/'' @ toHexString new_id)]) \<and>
          length (filter (\<lambda>c. coll (cat_name c) (sanitize (name b)))
                    (categories (fst (category_create_post coll
                       (fst (category_create_post coll s new_id b)) id2 b2)))) = 1"
  proof (intro allI impI)
    fix b2 id2
    assume eqv: "equivp coll" and ok2: "validationResult b2 = []"
      and eq: "coll (sanitize (name b2)) (sanitize (name b))"
    have "\<forall>c\<in>set (categories s). \<not> coll (cat_name c) (sanitize (name b2))"
      using nomatch eq by (blast intro: equivp_transp [OF eqv])
    then have "findOne_name coll (categories s) (sanitize (name b2)) = None"
      by (simp add: findOne_name_None_iff)
    moreover have "coll (cat_name ?new) (sanitize (name b2))"
      using eq by (simp add: equivp_symp [OF eqv])
    ultimately have "findOne_name coll (categories ?s1) (sanitize (name b2)) = Some ?new"
      by (simp add: findOne_name_last)
    from create_post_existing [OF ok2 this]
    have second: "category_create_post coll ?s1 id2 b2 =
        (?s1, [Redirect (''/category/'' @ toHexString new_id)])"
      by (simp add: url_def)
    have "filter (\<lambda>c. coll (cat_name c) (sanitize (name b))) (categories s) = []"
      using nomatch by (simp add: filter_empty_conv)
    then have count: "length (filter (\<lambda>c. coll (cat_name c) (sanitize (name b)))
                  (categories ?s1)) = 1"
      by (simp add: equivp_reflp [OF eqv])
    show "category_create_post coll (fst (category_create_post coll s new_id b)) id2 b2 =
            (fst (category_create_post coll s new_id b),
             [Redirect (''/category/'' @ toHexString new_id)]) \<and>
          length (filter (\<lambda>c. coll (cat_name c) (sanitize (name b)))
                    (categories (fst (category_create_post coll
                       (fst (category_create_post coll s new_id b)) id2 b2)))) = 1"
      unfolding first fst_conv second using count by simp
  qed
next
  show "\<forall>b2. (\<forall>x y. ascii_case_equal x y \<longrightarrow> coll x y) \<longrightarrow>
       ascii_case_equal (name b2) (name b) \<longrightarrow>
       coll (sanitize (name b2)) (sanitize (name b))"
    by (simp add: ascii_case_equal_sanitize)
qed

text \<open>
  The theorem with equality up to ASCII letter case as the collation, in a store that
  holds the Categories \<open>Toys\<close> and \<open>toys\<close>: at the creation of \<open>Widgets\<close> and then of
  \<open>widgets\<close>, and at the creation of \<open>TOYS\<close> with a leading space,
      which is redirected to
  the first of the two.
\<close>

theorem create_idempotent_witness:
  "validationResult \<lparr>name = ''Widgets'', description = ''desc''\<rparr> = [] \<and>
   validationResult \<lparr>name = ''widgets'', description = ''other desc''\<rparr> = [] \<and>
   ascii_case_equal ''widgets'' ''Widgets'' \<and>
   category_create_post ascii_case_equal
        \<lparr>categories = [\<lparr>cat_id = ObjectId ''65a000000000000000000001'',
          cat_name = ''Toys'', cat_description = ''For children''\<rparr>,
          \<lparr>cat_id = ObjectId ''65a000000000000000000005'', cat_name = ''toys'',
          cat_description = ''Second''\<rparr>], items = []\<rparr>
       (ObjectId ''65a000000000000000000002'') \<lparr>name = ''Widgets'',
           description = ''desc''\<rparr> =
     (
        \<lparr>categories = [\<lparr>cat_id = ObjectId ''65a000000000000000000001'',
          cat_name = ''Toys'', cat_description = ''For children''\<rparr>,
          \<lparr>cat_id = ObjectId ''65a000000000000000000005'', cat_name = ''toys'',
          cat_description = ''Second''\<rparr>,
          \<lparr>cat_id = ObjectId ''65a000000000000000000002'', cat_name = ''Widgets'',
          cat_description = ''desc''\<rparr>], items = []\<rparr>,
      [Redirect ''/category/65a000000000000000000002'']) \<and>
   category_create_post ascii_case_equal
        \<lparr>categories = [\<lparr>cat_id = ObjectId ''65a000000000000000000001'',
          cat_name = ''Toys'', cat_description = ''For children''\<rparr>,
          \<lparr>cat_id = ObjectId ''65a000000000000000000005'', cat_name = ''toys'',
          cat_description = ''Second''\<rparr>,
          \<lparr>cat_id = ObjectId ''65a000000000000000000002'', cat_name = ''Widgets'',
          cat_description = ''desc''\<rparr>], items = []\<rparr>
       (ObjectId ''65a000000000000000000003'') \<lparr>name = ''widgets'',
           description = ''other desc''\<rparr> =
     (
        \<lparr>categories = [\<lparr>cat_id = ObjectId ''65a000000000000000000001'',
          cat_name = ''Toys'', cat_description = ''For children''\<rparr>,
          \<lparr>cat_id = ObjectId ''65a000000000000000000005'', cat_name = ''toys'',
          cat_description = ''Second''\<rparr>,
          \<lparr>cat_id = ObjectId ''65a000000000000000000002'', cat_name = ''Widgets'',
          cat_description = ''desc''\<rparr>], items = []\<rparr>,
      [Redirect ''/category/65a000000000000000000002'']) \<and>
   validationResult \<lparr>name = '' TOYS'', description = ''again''\<rparr> = [] \<and>
   ascii_case_equal ''Toys'' (sanitize '' TOYS'') \<and>
   ascii_case_equal ''toys'' (sanitize '' TOYS'') \<and>
   category_create_post ascii_case_equal
        \<lparr>categories = [\<lparr>cat_id = ObjectId ''65a000000000000000000001'',
          cat_name = ''Toys'', cat_description = ''For children''\<rparr>,
          \<lparr>cat_id = ObjectId ''65a000000000000000000005'', cat_name = ''toys'',
          cat_description = ''Second''\<rparr>], items = []\<rparr>
       (ObjectId ''65a000000000000000000004'') \<lparr>name = '' TOYS'',
           description = ''again''\<rparr> =
     (
        \<lparr>categories = [\<lparr>cat_id = ObjectId ''65a000000000000000000001'',
          cat_name = ''Toys'', cat_description = ''For children''\<rparr>,
          \<lparr>cat_id = ObjectId ''65a000000000000000000005'', cat_name = ''toys'',
          cat_description = ''Second''\<rparr>], items = []\<rparr>,
      [Redirect ''/category/65a000000000000000000001''])"
proof -
  let ?s = "\<lparr>categories = [\<lparr>cat_id = ObjectId ''65a000000000000000000001'',
      cat_name = ''Toys'', cat_description = ''For children''\<rparr>,
          \<lparr>cat_id = ObjectId ''65a000000000000000000005'', cat_name = ''toys'',
              cat_description = ''Second''\<rparr>], items = []\<rparr>"
  let ?b = "\<lparr>name = ''Widgets'', description = ''desc''\<rparr>"
  let ?b2 = "\<lparr>name = ''widgets'', description = ''other desc''\<rparr>"
  let ?b3 = "\<lparr>name = '' TOYS'', description = ''again''\<rparr>"
  have ok: "validationResult ?b = []" by code_simp
  have ok2: "validationResult ?b2 = []" by code_simp
  have ok3: "validationResult ?b3 = []" by code_simp
  have same: "ascii_case_equal (name ?b2) (name ?b)" by code_simp
  have n: "sanitize ''Widgets'' = ''Widgets''" and d: "sanitize ''desc'' = ''desc''"
    by code_simp+
  have nomatch: "\<forall>c\<in>set (categories ?s). \<not> ascii_case_equal (cat_name c) (sanitize (name ?b))"
    by code_simp
  have fresh: "ObjectId ''65a000000000000000000002'' \<notin> cat_id ` set (categories ?s)"
    by simp
  have len: "length (sanitize (name ?b)) \<le> 100" "length (sanitize (description ?b)) \<le> 100"
    by code_simp+
  note inst = create_idempotent_by_name [OF ok, where coll = ascii_case_equal and s = ?s
      and new_id = "ObjectId ''65a000000000000000000002''"]
  note both = inst [THEN conjunct2, THEN conjunct1, THEN mp, OF nomatch, THEN mp, OF len(1),
      THEN mp, OF len(2), THEN mp, OF fresh]
  note first = both [THEN conjunct1]
  have eq: "ascii_case_equal (sanitize (name ?b2)) (sanitize (name ?b))"
    using inst [THEN conjunct2, THEN conjunct2, THEN spec, of ?b2] same by simp
  note second = both [THEN conjunct2, rule_format, OF equivp_ascii_case_equal ok2 eq,
      THEN conjunct1, of "ObjectId ''65a000000000000000000003''"]
  have s1: "fst (category_create_post ascii_case_equal ?s (ObjectId ''65a000000000000000000002'') ?b) =
      \<lparr>categories = [\<lparr>cat_id = ObjectId ''65a000000000000000000001'',
          cat_name = ''Toys'', cat_description = ''For children''\<rparr>,
              \<lparr>cat_id = ObjectId ''65a000000000000000000005'', cat_name = ''toys'',
                  cat_description = ''Second''\<rparr>,
                      \<lparr>cat_id = ObjectId ''65a000000000000000000002'',
                          cat_name = ''Widgets'', cat_description = ''desc''\<rparr>],
                              items = []\<rparr>"
    unfolding first by (simp add: n d)
  have m1: "ascii_case_equal ''Toys'' (sanitize '' TOYS'')"
    and m2: "ascii_case_equal ''toys'' (sanitize '' TOYS'')"
    by code_simp+
  have "\<exists>c\<in>set (categories ?s). ascii_case_equal (cat_name c) (sanitize (name ?b3))"
    using m1 by simp
  from create_idempotent_by_name [OF ok3, where coll = ascii_case_equal and s = ?s
      and new_id = "ObjectId ''65a000000000000000000004''", THEN conjunct1, THEN mp, OF this]
  obtain ys c zs where split: "categories ?s = ys @ c # zs"
    and before: "\<forall>y\<in>set ys. \<not> ascii_case_equal (cat_name y) (sanitize (name ?b3))"
    and res: "category_create_post ascii_case_equal ?s (ObjectId ''65a000000000000000000004'') ?b3 = (?s, [Redirect (url c)])"
    by blast
  have "ys = []"
  proof (cases ys)
    case Nil
    then show ?thesis .
  next
    case (Cons y ys')
    with split have "y = \<lparr>cat_id = ObjectId ''65a000000000000000000001'',
        cat_name = ''Toys'', cat_description = ''For children''\<rparr>"
      by simp
    with before Cons m1 show ?thesis by simp
  qed
  with split have "c = \<lparr>cat_id = ObjectId ''65a000000000000000000001'',
      cat_name = ''Toys'', cat_description = ''For children''\<rparr>"
    by simp
  with res have existing: "category_create_post ascii_case_equal ?s (ObjectId ''65a000000000000000000004'') ?b3 =
      (?s, [Redirect ''/category/65a000000000000000000001''])"
    by (simp add: url_def)
  from ok ok2 same first second [unfolded s1] ok3 m1 m2 existing show ?thesis
    by (simp add: n d)
qed

text \<open>
  C1 does not hold without the bound on the sanitized fields: that every valid request
  without a matching name persists one new record and is redirected to it fails at a
  name of 21 ampersands in an empty store, where no collation finds a match.
  The name is 21 characters long after trimming and passes validation; escaped it is
  105 characters long, \<open>save()\<close> rejects it, nothing is written and the caller gets the
  error.
\<close>

theorem create_over_length_counterexample:
  "validationResult \<lparr>name = ''&&&&&&&&&&&&&&&&&&&&&'',
      description = ''d''\<rparr> = [] \<and>
   length (trim ''&&&&&&&&&&&&&&&&&&&&&'') = 21 \<and> length (trim ''d'') = 1 \<and>
   category_create_post ascii_case_equal \<lparr>categories = [],
       items = []\<rparr> (ObjectId ''65a000000000000000000001'')
       \<lparr>name = ''&&&&&&&&&&&&&&&&&&&&&'', description = ''d''\<rparr> =
     (\<lparr>categories = [], items = []\<rparr>, [Next (SchemaValidationError [''name''])])"
  by code_simp

section \<open>Home summary\<close>

text \<open>
  C8: the home summary renders the number of Item documents and the number of Category
  documents of the store, and leaves the store as it was. The two counts are read from
  the same store; neither read changes it, so the order in which they resolve does not
  matter.
\<close>

theorem index_counts_read_only:
  "index s = (s,
      [Render_index ''Inventory App - Home'' (length (items s)) (length (categories s))])"
  by (simp add: index_def countDocuments_def)

section \<open>Category detail\<close>

text \<open>
  C7, as the handler has it. For a request whose id casts to an ObjectId, the handler
  passes the error with status 404 to \<open>next\<close> exactly when no Category has that
  ObjectId; when one has, it renders the detail view with that Category and the
  projection of every Item whose \<open>category\<close> field is that ObjectId. For a request whose id
  does not cast, the handler passes the \<open>CastError\<close> of the query. So the 404 is passed
  exactly when the id casts and no Category has it. The store is not changed.
\<close>

theorem category_detail_not_found_iff:
  "(\<forall>oid. castObjectId v = Inr oid \<longrightarrow>
      (snd (category_detail s v) = [Next (Error ''Category not found'' (Some 404))]
         \<longleftrightarrow> oid \<notin> cat_id ` set (categories s)) \<and>
      (\<forall>c. findOne_id (categories s) oid = Some c \<longrightarrow>
         c \<in> set (categories s) \<and> cat_id c = oid \<and>
         category_detail s v =
           (s, [Render_category_detail ''Category Detail'' c
                  (map project (filter (\<lambda>x. item_category x = oid) (items s)))]))) \<and>
   (\<forall>e. castObjectId v = Inl e \<longrightarrow> category_detail s v = (s,
       [Next (CastError v)])) \<and>
   ((\<exists>msg. Next (Error msg (Some 404)) \<in> set (snd (category_detail s v)))
      \<longleftrightarrow> (\<exists>oid. castObjectId v = Inr oid \<and> oid \<notin> cat_id ` set (categories s))) \<and>
   fst (category_detail s v) = s"
proof (cases "castObjectId v")
  case (Inl e)
  then have "category_detail s v = (s, [Next (CastError v)])"
    using castObjectId_error [OF Inl] by (simp add: category_detail_cast_error)
  with Inl show ?thesis by simp
next
  case (Inr oid)
  show ?thesis
  proof (cases "findOne_id (categories s) oid")
    case None
    with Inr show ?thesis
      by (simp add: category_detail_cast_ok findOne_id_None_iff [symmetric])
  next
    case (Some c)
    then have "oid \<in> cat_id ` set (categories s)"
      using findOne_id_None_iff [of "categories s" oid] by simp
    with Inr Some show ?thesis
      by (simp add: category_detail_cast_ok findOne_id_Some_D)
  qed
qed

text \<open>
  The theorem at a store with one Category and two Items: at the id of the Category
  written with a capital letter, at a well-formed id that no Category has, and at an id
  that does not cast.
\<close>

theorem category_detail_witness:
  "castObjectId ''65A000000000000000000001'' = Inr (ObjectId ''65a000000000000000000001'') \<and>
   category_detail
      \<lparr>categories = [\<lparr>cat_id = ObjectId ''65a000000000000000000001'',
        cat_name = ''Tools'', cat_description = ''Hand tools''\<rparr>],
        items = [\<lparr>item_id = ObjectId ''65b000000000000000000001'',
        item_name = ''Hammer'', item_description = ''Claw hammer'', item_price = 12,
        item_stock = 3, item_category = ObjectId ''65a000000000000000000001'',
        item_image = None\<rparr>, \<lparr>item_id = ObjectId ''65b000000000000000000002'',
        item_name = ''Apple'', item_description = ''Fruit'', item_price = 1,
        item_stock = 40, item_category = ObjectId ''65a000000000000000000002'',
        item_image = None\<rparr>]\<rparr>
     ''65A000000000000000000001'' =
   (
      \<lparr>categories = [\<lparr>cat_id = ObjectId ''65a000000000000000000001'',
        cat_name = ''Tools'', cat_description = ''Hand tools''\<rparr>],
        items = [\<lparr>item_id = ObjectId ''65b000000000000000000001'',
        item_name = ''Hammer'', item_description = ''Claw hammer'', item_price = 12,
        item_stock = 3, item_category = ObjectId ''65a000000000000000000001'',
        item_image = None\<rparr>, \<lparr>item_id = ObjectId ''65b000000000000000000002'',
        item_name = ''Apple'', item_description = ''Fruit'', item_price = 1,
        item_stock = 40, item_category = ObjectId ''65a000000000000000000002'',
        item_image = None\<rparr>]\<rparr>,
    [Render_category_detail ''Category Detail''
       \<lparr>cat_id = ObjectId ''65a000000000000000000001'', cat_name = ''Tools'',
         cat_description = ''Hand tools''\<rparr>
       [\<lparr>proj_id = ObjectId ''65b000000000000000000001'', proj_name = ''Hammer'',
          proj_description = ''Claw hammer'', proj_price = 12, proj_stock = 3\<rparr>]]) \<and>
   castObjectId ''65a0000000000000000000ff'' = Inr (ObjectId ''65a0000000000000000000ff'') \<and>
   snd (category_detail
      \<lparr>categories = [\<lparr>cat_id = ObjectId ''65a000000000000000000001'',
        cat_name = ''Tools'', cat_description = ''Hand tools''\<rparr>],
        items = [\<lparr>item_id = ObjectId ''65b000000000000000000001'',
        item_name = ''Hammer'', item_description = ''Claw hammer'', item_price = 12,
        item_stock = 3, item_category = ObjectId ''65a000000000000000000001'',
        item_image = None\<rparr>, \<lparr>item_id = ObjectId ''65b000000000000000000002'',
        item_name = ''Apple'', item_description = ''Fruit'', item_price = 1,
        item_stock = 40, item_category = ObjectId ''65a000000000000000000002'',
        item_image = None\<rparr>]\<rparr>
     ''65a0000000000000000000ff'') = [Next (Error ''Category not found'' (Some 404))] \<and>
   category_detail
      \<lparr>categories = [\<lparr>cat_id = ObjectId ''65a000000000000000000001'',
        cat_name = ''Tools'', cat_description = ''Hand tools''\<rparr>],
        items = [\<lparr>item_id = ObjectId ''65b000000000000000000001'',
        item_name = ''Hammer'', item_description = ''Claw hammer'', item_price = 12,
        item_stock = 3, item_category = ObjectId ''65a000000000000000000001'',
        item_image = None\<rparr>, \<lparr>item_id = ObjectId ''65b000000000000000000002'',
        item_name = ''Apple'', item_description = ''Fruit'', item_price = 1,
        item_stock = 40, item_category = ObjectId ''65a000000000000000000002'',
        item_image = None\<rparr>]\<rparr>
     ''abc'' =
   (
      \<lparr>categories = [\<lparr>cat_id = ObjectId ''65a000000000000000000001'',
        cat_name = ''Tools'', cat_description = ''Hand tools''\<rparr>],
        items = [\<lparr>item_id = ObjectId ''65b000000000000000000001'',
        item_name = ''Hammer'', item_description = ''Claw hammer'', item_price = 12,
        item_stock = 3, item_category = ObjectId ''65a000000000000000000001'',
        item_image = None\<rparr>, \<lparr>item_id = ObjectId ''65b000000000000000000002'',
        item_name = ''Apple'', item_description = ''Fruit'', item_price = 1,
        item_stock = 40, item_category = ObjectId ''65a000000000000000000002'',
        item_image = None\<rparr>]\<rparr>,
    [Next (CastError ''abc'')])"
proof -
  let ?s = "\<lparr>categories = [\<lparr>cat_id = ObjectId ''65a000000000000000000001'',
      cat_name = ''Tools'', cat_description = ''Hand tools''\<rparr>],
          items = [\<lparr>item_id = ObjectId ''65b000000000000000000001'',
              item_name = ''Hammer'', item_description = ''Claw hammer'', item_price = 12,
                  item_stock = 3, item_category = ObjectId ''65a000000000000000000001'',
                      item_image = None\<rparr>,
                          \<lparr>item_id = ObjectId ''65b000000000000000000002'',
                              item_name = ''Apple'', item_description = ''Fruit'',
                                  item_price = 1, item_stock = 40,
                                      item_category = ObjectId ''65a000000000000000000002'',
                                          item_image = None\<rparr>]\<rparr>"
  have c1: "castObjectId ''65A000000000000000000001'' = Inr (ObjectId ''65a000000000000000000001'')" by code_simp
  have c2: "castObjectId ''65a0000000000000000000ff'' = Inr (ObjectId ''65a0000000000000000000ff'')" by code_simp
  have c3: "castObjectId ''abc'' = Inl (CastError ''abc'')" by code_simp
  from c1 category_detail_not_found_iff [of "''65A000000000000000000001''" ?s]
  have found: "category_detail ?s ''65A000000000000000000001'' =
      (?s, [Render_category_detail ''Category Detail''
       \<lparr>cat_id = ObjectId ''65a000000000000000000001'', cat_name = ''Tools'',
         cat_description = ''Hand tools''\<rparr>
         [\<lparr>proj_id = ObjectId ''65b000000000000000000001'', proj_name = ''Hammer'',
            proj_description = ''Claw hammer'', proj_price = 12, proj_stock = 3\<rparr>]])"
    by (simp add: findOne_id_def project_def)
  from c2 category_detail_not_found_iff [of "''65a0000000000000000000ff''" ?s]
  have absent: "snd (category_detail ?s ''65a0000000000000000000ff'') =
      [Next (Error ''Category not found'' (Some 404))]"
    by simp
  from c3 category_detail_not_found_iff [of "''abc''" ?s]
  have malformed: "category_detail ?s ''abc'' = (?s, [Next (CastError ''abc'')])"
    by simp
  from c1 c2 found absent malformed show ?thesis by simp
qed

text \<open>
  C7 does not hold for every request: no Category has the id \<open>abc\<close>, and the handler
  fails with the \<open>CastError\<close>, which carries no status, not with the 404.
\<close>

theorem category_detail_malformed_counterexample:
  "category_detail \<lparr>categories = [], items = []\<rparr> ''abc'' =
     (\<lparr>categories = [], items = []\<rparr>, [Next (CastError ''abc'')])"
  by code_simp

section \<open>Category delete: the confirmation step\<close>

text \<open>
  C5: for a request whose id matches no stored Category the claim is that the handler's
  only response is the redirect to the listing. The handler does call \<open>res.redirect\<close>,
  but it does not return there: it goes on to call \<open>res.render\<close> of the confirmation
  view with \<open>category: null\<close>. At a store that has no Category with the requested id the
  calls are, in order, the redirect and the render.
\<close>

theorem delete_get_absent_falls_through:
  "category_delete_get
      \<lparr>categories = [\<lparr>cat_id = ObjectId ''65a000000000000000000001'',
        cat_name = ''Toys'', cat_description = ''For children''\<rparr>], items = []\<rparr>
     ''65a0000000000000000000ff''
   = (
      \<lparr>categories = [\<lparr>cat_id = ObjectId ''65a000000000000000000001'',
        cat_name = ''Toys'', cat_description = ''For children''\<rparr>], items = []\<rparr>,
      [Redirect ''/categories'', Render_category_delete ''Delete Category'' None []])"
  by code_simp

section \<open>Category delete: the execution step\<close>

text \<open>
  C2: take the delete-execution for a Category, whose ObjectId \<open>oid\<close> the request path
  spells as \<open>v\<close>. When at least one Item of the store has \<open>oid\<close> in its \<open>category\<close> field,
  the handler leaves the store as it was (so the Category is still there unchanged)
  and renders the confirmation view with exactly those Items. When no Item has it, the
  handler redirects to the listing, leaves the Items alone and removes the Category
  document with that id: no Category has the id afterwards (identifiers being unique
  in the collection), and every other Category is still found as before.
\<close>

theorem delete_blocked_by_dependents:
  assumes "castObjectId v = Inr oid"
  shows
  "(filter (\<lambda>x. item_category x = oid) (items s) \<noteq> [] \<longrightarrow>
      category_delete_post s v =
        (s, [Render_category_delete ''Delete Category'' (findOne_id (categories s) oid)
               (filter (\<lambda>x. item_category x = oid) (items s))])) \<and>
   (filter (\<lambda>x. item_category x = oid) (items s) = [] \<longrightarrow>
      snd (category_delete_post s v) = [Redirect ''/categories''] \<and>
      items (fst (category_delete_post s v)) = items s \<and>
      categories (fst (category_delete_post s v)) = delete_one oid (categories s) \<and>
      (distinct (map cat_id (categories s)) \<longrightarrow>
         findOne_id (categories (fst (category_delete_post s v))) oid = None) \<and>
      (\<forall>j. j \<noteq> oid \<longrightarrow>
         findOne_id (categories (fst (category_delete_post s v))) j =
           findOne_id (categories s) j))"
  by (simp add: delete_post_cast_ok [OF assms] delete_one_removes delete_one_other)

text \<open>
  The theorem at a Category with one dependent Item, its id written with a capital
  letter, and at a Category with none in a store of two Categories.
\<close>

theorem delete_blocked_witness:
  "castObjectId ''65A000000000000000000001'' = Inr (ObjectId ''65a000000000000000000001'') \<and>
   filter (\<lambda>x. item_category x = ObjectId ''65a000000000000000000001'')
     (items
      \<lparr>categories = [\<lparr>cat_id = ObjectId ''65a000000000000000000001'',
        cat_name = ''A'', cat_description = ''first''\<rparr>],
        items = [\<lparr>item_id = ObjectId ''65b000000000000000000001'',
        item_name = ''X'', item_description = ''thing'', item_price = 5, item_stock = 1,
        item_category = ObjectId ''65a000000000000000000001'',
        item_image = None\<rparr>]\<rparr>) \<noteq> [] \<and>
   category_delete_post
      \<lparr>categories = [\<lparr>cat_id = ObjectId ''65a000000000000000000001'',
        cat_name = ''A'', cat_description = ''first''\<rparr>],
        items = [\<lparr>item_id = ObjectId ''65b000000000000000000001'',
        item_name = ''X'', item_description = ''thing'', item_price = 5, item_stock = 1,
        item_category = ObjectId ''65a000000000000000000001'',
        item_image = None\<rparr>]\<rparr>
     ''65A000000000000000000001'' =
   (
      \<lparr>categories = [\<lparr>cat_id = ObjectId ''65a000000000000000000001'',
        cat_name = ''A'', cat_description = ''first''\<rparr>],
        items = [\<lparr>item_id = ObjectId ''65b000000000000000000001'',
        item_name = ''X'', item_description = ''thing'', item_price = 5, item_stock = 1,
        item_category = ObjectId ''65a000000000000000000001'',
        item_image = None\<rparr>]\<rparr>,
    [Render_category_delete ''Delete Category''
       (Some
          \<lparr>cat_id = ObjectId ''65a000000000000000000001'', cat_name = ''A'',
            cat_description = ''first''\<rparr>)
       [
          \<lparr>item_id = ObjectId ''65b000000000000000000001'', item_name = ''X'',
            item_description = ''thing'', item_price = 5, item_stock = 1,
            item_category = ObjectId ''65a000000000000000000001'',
                item_image = None\<rparr>]]) \<and>
   castObjectId ''65a000000000000000000002'' = Inr (ObjectId ''65a000000000000000000002'') \<and>
   filter (\<lambda>x. item_category x = ObjectId ''65a000000000000000000002'')
     (items
      \<lparr>categories = [\<lparr>cat_id = ObjectId ''65a000000000000000000001'',
        cat_name = ''A'', cat_description = ''first''\<rparr>,
        \<lparr>cat_id = ObjectId ''65a000000000000000000002'', cat_name = ''B'',
        cat_description = ''second''\<rparr>], items = []\<rparr>) = [] \<and>
   distinct (map cat_id (categories
      \<lparr>categories = [\<lparr>cat_id = ObjectId ''65a000000000000000000001'',
        cat_name = ''A'', cat_description = ''first''\<rparr>,
        \<lparr>cat_id = ObjectId ''65a000000000000000000002'', cat_name = ''B'',
        cat_description = ''second''\<rparr>], items = []\<rparr>)) \<and>
   category_delete_post
      \<lparr>categories = [\<lparr>cat_id = ObjectId ''65a000000000000000000001'',
        cat_name = ''A'', cat_description = ''first''\<rparr>,
        \<lparr>cat_id = ObjectId ''65a000000000000000000002'', cat_name = ''B'',
        cat_description = ''second''\<rparr>], items = []\<rparr>
     ''65a000000000000000000002'' =
   (
      \<lparr>categories = [\<lparr>cat_id = ObjectId ''65a000000000000000000001'',
        cat_name = ''A'', cat_description = ''first''\<rparr>], items = []\<rparr>,
    [Redirect ''/categories''])"
proof -
  let ?s1 = "\<lparr>categories = [\<lparr>cat_id = ObjectId ''65a000000000000000000001'',
      cat_name = ''A'', cat_description = ''first''\<rparr>],
          items = [\<lparr>item_id = ObjectId ''65b000000000000000000001'', item_name = ''X'',
              item_description = ''thing'', item_price = 5, item_stock = 1,
                  item_category = ObjectId ''65a000000000000000000001'',
                      item_image = None\<rparr>]\<rparr>"
  let ?s2 = "\<lparr>categories = [\<lparr>cat_id = ObjectId ''65a000000000000000000001'',
      cat_name = ''A'', cat_description = ''first''\<rparr>,
          \<lparr>cat_id = ObjectId ''65a000000000000000000002'', cat_name = ''B'',
              cat_description = ''second''\<rparr>], items = []\<rparr>"
  have c1: "castObjectId ''65A000000000000000000001'' = Inr (ObjectId ''65a000000000000000000001'')" by code_simp
  have c2: "castObjectId ''65a000000000000000000002'' = Inr (ObjectId ''65a000000000000000000002'')" by code_simp
  from delete_blocked_by_dependents [OF c1, of ?s1]
  have blocked: "category_delete_post ?s1 ''65A000000000000000000001'' =
      (?s1, [Render_category_delete ''Delete Category''
         (Some
          \<lparr>cat_id = ObjectId ''65a000000000000000000001'', cat_name = ''A'',
            cat_description = ''first''\<rparr>)
         [
          \<lparr>item_id = ObjectId ''65b000000000000000000001'', item_name = ''X'',
            item_description = ''thing'', item_price = 5, item_stock = 1,
            item_category = ObjectId ''65a000000000000000000001'', item_image = None\<rparr>]])"
    by (simp add: findOne_id_def)
  from delete_blocked_by_dependents [OF c2, of ?s2]
  have deleted: "category_delete_post ?s2 ''65a000000000000000000002'' =
      (
      \<lparr>categories = [\<lparr>cat_id = ObjectId ''65a000000000000000000001'',
        cat_name = ''A'', cat_description = ''first''\<rparr>], items = []\<rparr>,
       [Redirect ''/categories''])"
    by (simp add: prod_eq_iff store.equality)
  from c1 c2 blocked deleted show ?thesis by simp
qed

text \<open>
  C10, as the handler has it. When the id of the request casts to an ObjectId that no
  Category has and to which no Item refers, the handler redirects to the listing and
  the store is unchanged. When the id does not cast, the handler passes the
  \<open>CastError\<close> of the query to \<open>next\<close> and the store is unchanged. That is the only error
  the execution step ever passes: an absent Category is never reported as not found.
\<close>

theorem delete_absent_noop:
  "(\<forall>oid. castObjectId v = Inr oid \<longrightarrow> oid \<notin> cat_id ` set (categories s) \<longrightarrow>
      filter (\<lambda>x. item_category x = oid) (items s) = [] \<longrightarrow>
      category_delete_post s v = (s, [Redirect ''/categories''])) \<and>
   (\<forall>e. castObjectId v = Inl e \<longrightarrow> category_delete_post s v = (s,
       [Next (CastError v)])) \<and>
   (\<forall>e. Next e \<in> set (snd (category_delete_post s v)) \<longrightarrow>
      e = CastError v \<and> castObjectId v = Inl e)"
proof (cases "castObjectId v")
  case (Inl e)
  with castObjectId_error [OF Inl] show ?thesis
    by (simp add: delete_post_cast_error)
next
  case (Inr oid)
  have "s\<lparr>categories := delete_one oid (categories s)\<rparr> = s"
    if "oid \<notin> cat_id ` set (categories s)"
    using that by (simp add: delete_one_absent findOne_id_None_iff)
  with Inr show ?thesis
    by (simp add: delete_post_cast_ok)
qed

text \<open>
  The theorem at a well-formed id that neither a Category nor an Item of the store
  carries, and at an id that does not cast.
\<close>

theorem delete_absent_witness:
  "castObjectId ''65A0000000000000000000FF'' = Inr (ObjectId ''65a0000000000000000000ff'') \<and>
   ObjectId ''65a0000000000000000000ff'' \<notin> cat_id ` set (categories
      \<lparr>categories = [\<lparr>cat_id = ObjectId ''65a000000000000000000001'',
        cat_name = ''Toys'', cat_description = ''For children''\<rparr>],
        items = [\<lparr>item_id = ObjectId ''65b000000000000000000001'',
        item_name = ''Kite'', item_description = ''Red'', item_price = 7, item_stock = 2,
        item_category = ObjectId ''65a000000000000000000001'',
        item_image = None\<rparr>]\<rparr>) \<and>
   filter (\<lambda>x. item_category x = ObjectId ''65a0000000000000000000ff'')
     (items
      \<lparr>categories = [\<lparr>cat_id = ObjectId ''65a000000000000000000001'',
        cat_name = ''Toys'', cat_description = ''For children''\<rparr>],
        items = [\<lparr>item_id = ObjectId ''65b000000000000000000001'',
        item_name = ''Kite'', item_description = ''Red'', item_price = 7, item_stock = 2,
        item_category = ObjectId ''65a000000000000000000001'',
        item_image = None\<rparr>]\<rparr>) = [] \<and>
   category_delete_post
      \<lparr>categories = [\<lparr>cat_id = ObjectId ''65a000000000000000000001'',
        cat_name = ''Toys'', cat_description = ''For children''\<rparr>],
        items = [\<lparr>item_id = ObjectId ''65b000000000000000000001'',
        item_name = ''Kite'', item_description = ''Red'', item_price = 7, item_stock = 2,
        item_category = ObjectId ''65a000000000000000000001'',
        item_image = None\<rparr>]\<rparr>
     ''65A0000000000000000000FF'' =
   (
      \<lparr>categories = [\<lparr>cat_id = ObjectId ''65a000000000000000000001'',
        cat_name = ''Toys'', cat_description = ''For children''\<rparr>],
        items = [\<lparr>item_id = ObjectId ''65b000000000000000000001'',
        item_name = ''Kite'', item_description = ''Red'', item_price = 7, item_stock = 2,
        item_category = ObjectId ''65a000000000000000000001'',
        item_image = None\<rparr>]\<rparr>,
    [Redirect ''/categories'']) \<and>
   category_delete_post
      \<lparr>categories = [\<lparr>cat_id = ObjectId ''65a000000000000000000001'',
        cat_name = ''Toys'', cat_description = ''For children''\<rparr>],
        items = [\<lparr>item_id = ObjectId ''65b000000000000000000001'',
        item_name = ''Kite'', item_description = ''Red'', item_price = 7, item_stock = 2,
        item_category = ObjectId ''65a000000000000000000001'',
        item_image = None\<rparr>]\<rparr>
     ''abc'' =
   (
      \<lparr>categories = [\<lparr>cat_id = ObjectId ''65a000000000000000000001'',
        cat_name = ''Toys'', cat_description = ''For children''\<rparr>],
        items = [\<lparr>item_id = ObjectId ''65b000000000000000000001'',
        item_name = ''Kite'', item_description = ''Red'', item_price = 7, item_stock = 2,
        item_category = ObjectId ''65a000000000000000000001'',
        item_image = None\<rparr>]\<rparr>,
    [Next (CastError ''abc'')])"
proof -
  let ?s = "\<lparr>categories = [\<lparr>cat_id = ObjectId ''65a000000000000000000001'',
      cat_name = ''Toys'', cat_description = ''For children''\<rparr>],
          items = [\<lparr>item_id = ObjectId ''65b000000000000000000001'',
              item_name = ''Kite'', item_description = ''Red'', item_price = 7, item_stock = 2,
                  item_category = ObjectId ''65a000000000000000000001'',
                      item_image = None\<rparr>]\<rparr>"
  have c1: "castObjectId ''65A0000000000000000000FF'' = Inr (ObjectId ''65a0000000000000000000ff'')" by code_simp
  have c2: "castObjectId ''abc'' = Inl (CastError ''abc'')" by code_simp
  have notin: "ObjectId ''65a0000000000000000000ff'' \<notin> cat_id ` set (categories ?s)"
    by simp
  have noitems: "filter (\<lambda>x. item_category x = ObjectId ''65a0000000000000000000ff'') (items ?s) = []"
    by simp
  note absent = delete_absent_noop [of "''65A0000000000000000000FF''" ?s, THEN conjunct1,
      rule_format, OF c1 notin noitems]
  note malformed = delete_absent_noop [of "''abc''" ?s, THEN conjunct2, THEN conjunct1,
      rule_format, OF c2]
  show ?thesis
    by (intro conjI c1 absent malformed) simp_all
qed

text \<open>
  C10 does not hold for every request: no Category has the id \<open>abc\<close> and no Item refers
  to it, and the handler does not redirect but fails with the \<open>CastError\<close>.
\<close>

theorem delete_malformed_counterexample:
  "category_delete_post
      \<lparr>categories = [\<lparr>cat_id = ObjectId ''65a000000000000000000001'',
        cat_name = ''Toys'', cat_description = ''For children''\<rparr>], items = []\<rparr>
     ''abc'' =
   (
      \<lparr>categories = [\<lparr>cat_id = ObjectId ''65a000000000000000000001'',
        cat_name = ''Toys'', cat_description = ''For children''\<rparr>], items = []\<rparr>,
    [Next (CastError ''abc'')])"
  by code_simp

section \<open>Category update\<close>

text \<open>
  C3: an update whose fields pass validation leaves the identifiers of the collection
  as they were, document by document, and leaves the Items alone. When the id of the
  request path casts to an ObjectId, the document found under it is found under the
  same ObjectId afterwards, with its name and description replaced by the sanitized
  fields of the request; every other Category is as before, and the response is the
  redirect to the detail page of that ObjectId. When the id does not cast, nothing is
  written.
\<close>

theorem update_keeps_identifier:
  assumes "validationResult b = []"
  shows
    "map cat_id (categories (fst (category_update_post s new_id v b))) =
       map cat_id (categories s) \<and>
     items (fst (category_update_post s new_id v b)) = items s \<and>
     (\<forall>oid. castObjectId v = Inr oid \<longrightarrow>
        (\<forall>c. findOne_id (categories s) oid = Some c \<longrightarrow>
           findOne_id (categories (fst (category_update_post s new_id v b))) oid =
             Some (c\<lparr>cat_name := sanitize (name b),
                     cat_description := sanitize (description b)\<rparr>)) \<and>
        (\<forall>j. j \<noteq> oid \<longrightarrow>
           findOne_id (categories (fst (category_update_post s new_id v b))) j =
             findOne_id (categories s) j) \<and>
        snd (category_update_post s new_id v b) =
          [Redirect (''/category/'' @ toHexString oid)]) \<and>
     (\<forall>e. castObjectId v = Inl e \<longrightarrow>
        category_update_post s new_id v b = (s, [Next (CastError v)]))"
proof (cases "castObjectId v")
  case (Inl e)
  with castObjectId_error [OF Inl] assms show ?thesis
    by (simp add: update_post_cast_error)
next
  case (Inr oid)
  let ?u = "\<lparr>cat_id = oid, cat_name = sanitize (name b),
             cat_description = sanitize (description b)\<rparr>"
  note post = update_post_cast_ok [OF assms Inr, of s new_id]
  have ids: "map cat_id (update_one oid ?u (categories s)) = map cat_id (categories s)"
    by (rule update_one_ids) simp
  have hit: "findOne_id (update_one oid ?u (categories s)) oid =
      Some (c\<lparr>cat_name := sanitize (name b),
          cat_description := sanitize (description b)\<rparr>)"
    if "findOne_id (categories s) oid = Some c" for c
  proof -
    from that have "cat_id c = oid" by (simp add: findOne_id_Some_D)
    then have "c\<lparr>cat_id := oid\<rparr> = c" by simp
    with update_one_hit [OF that, of ?u] show ?thesis by simp
  qed
  have other: "findOne_id (update_one oid ?u (categories s)) j = findOne_id (categories s) j"
    if "j \<noteq> oid" for j
    using that by (simp add: update_one_other)
  from Inr show ?thesis
    by (simp add: post ids hit other)
qed

text \<open>
  The theorem at a stored Category whose name and description are replaced, its id
  written with a capital letter in the request path.
\<close>

theorem update_keeps_identifier_witness:
  "validationResult \<lparr>name = '' Tools '', description = ''Hand <tools>''\<rparr> = [] \<and>
   castObjectId ''65A000000000000000000001'' = Inr (ObjectId ''65a000000000000000000001'') \<and>
   category_update_post
      \<lparr>categories = [\<lparr>cat_id = ObjectId ''65a000000000000000000001'',
        cat_name = ''Toys'', cat_description = ''For children''\<rparr>], items = []\<rparr>
     (ObjectId ''65a000000000000000000009'') ''65A000000000000000000001''
     \<lparr>name = '' Tools '', description = ''Hand <tools>''\<rparr> =
   (
      \<lparr>categories = [\<lparr>cat_id = ObjectId ''65a000000000000000000001'',
        cat_name = ''Tools'', cat_description = ''Hand &lt;tools&gt;''\<rparr>],
        items = []\<rparr>,
    [Redirect ''/category/65a000000000000000000001''])"
proof -
  let ?s = "\<lparr>categories = [\<lparr>cat_id = ObjectId ''65a000000000000000000001'',
      cat_name = ''Toys'', cat_description = ''For children''\<rparr>], items = []\<rparr>"
  have v: "validationResult \<lparr>name = '' Tools '', description = ''Hand <tools>''\<rparr> = []"
    by code_simp
  have n: "sanitize '' Tools '' = ''Tools''" by code_simp
  have d: "sanitize ''Hand <tools>'' = ''Hand &lt;tools&gt;''" by code_simp
  have c: "castObjectId ''65A000000000000000000001'' = Inr (ObjectId ''65a000000000000000000001'')" by code_simp
  note inst = update_keeps_identifier [OF v,
      of ?s "ObjectId ''65a000000000000000000009''" "''65A000000000000000000001''"]
  from inst c have cats: "map cat_id (categories (fst (category_update_post ?s (ObjectId ''65a000000000000000000009'')
        ''65A000000000000000000001'' \<lparr>name = '' Tools '',
            description = ''Hand <tools>''\<rparr>))) = [ObjectId ''65a000000000000000000001'']"
    by simp
  from inst c have its: "items (fst (category_update_post ?s (ObjectId ''65a000000000000000000009'')
        ''65A000000000000000000001'' \<lparr>name = '' Tools '',
            description = ''Hand <tools>''\<rparr>)) = []"
    by simp
  from inst c have hit: "findOne_id (categories (fst (category_update_post ?s (ObjectId ''65a000000000000000000009'')
        ''65A000000000000000000001'' \<lparr>name = '' Tools '',
            description = ''Hand <tools>''\<rparr>))) (ObjectId ''65a000000000000000000001'') =
      Some \<lparr>cat_id = ObjectId ''65a000000000000000000001'', cat_name = ''Tools'',
          cat_description = ''Hand &lt;tools&gt;''\<rparr>"
    by (simp add: findOne_id_def n d)
  from inst c have resp: "snd (category_update_post ?s (ObjectId ''65a000000000000000000009'')
        ''65A000000000000000000001'' \<lparr>name = '' Tools '',
            description = ''Hand <tools>''\<rparr>) = [Redirect ''/category/65a000000000000000000001'']"
    by simp
  obtain s' r where sr: "category_update_post ?s (ObjectId ''65a000000000000000000009'') ''65A000000000000000000001'' \<lparr>name = '' Tools '', description = ''Hand <tools>''\<rparr> = (s', r)"
    by (cases "category_update_post ?s (ObjectId ''65a000000000000000000009'') ''65A000000000000000000001'' \<lparr>name = '' Tools '', description = ''Hand <tools>''\<rparr>")
  from cats sr obtain c' where c': "categories s' = [c']" and "cat_id c' = ObjectId ''65a000000000000000000001''"
    by (cases "categories s'") auto
  with hit sr have "c' = \<lparr>cat_id = ObjectId ''65a000000000000000000001'',
      cat_name = ''Tools'', cat_description = ''Hand &lt;tools&gt;''\<rparr>"
    by (simp add: findOne_id_def)
  with c' its sr have "s' = \<lparr>categories = [\<lparr>cat_id = ObjectId ''65a000000000000000000001'', cat_name = ''Tools'', cat_description = ''Hand &lt;tools&gt;''\<rparr>], items = []\<rparr>"
    by (simp add: store.equality)
  with resp sr v c show ?thesis by simp
qed

text \<open>
  C9, as the handler has it. An update whose fields pass validation and whose id casts
  to an ObjectId that no Category has writes nothing, and still answers with the
  redirect to the detail page of that ObjectId, which prints with small letters. When
  the id does not cast,
      nothing is written and the \<open>CastError\<close> of the query is passed to
  \<open>next\<close>. In neither case is a not-found \<open>Error\<close> passed.
\<close>

theorem update_absent_silent_redirect:
  assumes "validationResult b = []"
  shows
    "(\<forall>oid. castObjectId v = Inr oid \<longrightarrow> oid \<notin> cat_id ` set (categories s) \<longrightarrow>
        category_update_post s new_id v b =
          (s, [Redirect (''/category/'' @ toHexString oid)])) \<and>
     (\<forall>e. castObjectId v = Inl e \<longrightarrow>
        category_update_post s new_id v b = (s, [Next (CastError v)])) \<and>
     (\<forall>msg status. Next (Error msg status) \<notin> set (snd (category_update_post s new_id v b)))"
proof (cases "castObjectId v")
  case (Inl e)
  with castObjectId_error [OF Inl] assms show ?thesis
    by (simp add: update_post_cast_error)
next
  case (Inr oid)
  have "s\<lparr>categories := update_one oid u (categories s)\<rparr> = s"
    if "oid \<notin> cat_id ` set (categories s)" for u
    using that by (simp add: update_one_absent findOne_id_None_iff)
  with Inr assms show ?thesis
    by (simp add: update_post_cast_ok)
qed

text \<open>The theorem at a well-formed id, written with capital letters,
    that is not in the collection.\<close>

theorem update_absent_witness:
  "validationResult \<lparr>name = ''Tools'', description = ''Hand tools''\<rparr> = [] \<and>
   castObjectId ''65A0000000000000000000FF'' = Inr (ObjectId ''65a0000000000000000000ff'') \<and>
   ObjectId ''65a0000000000000000000ff'' \<notin> cat_id ` set (categories
      \<lparr>categories = [\<lparr>cat_id = ObjectId ''65a000000000000000000001'',
        cat_name = ''Toys'', cat_description = ''For children''\<rparr>], items = []\<rparr>) \<and>
   category_update_post
      \<lparr>categories = [\<lparr>cat_id = ObjectId ''65a000000000000000000001'',
        cat_name = ''Toys'', cat_description = ''For children''\<rparr>], items = []\<rparr>
     (ObjectId ''65a000000000000000000009'') ''65A0000000000000000000FF'' \<lparr>name = ''Tools'', description = ''Hand tools''\<rparr> =
   (
      \<lparr>categories = [\<lparr>cat_id = ObjectId ''65a000000000000000000001'',
        cat_name = ''Toys'', cat_description = ''For children''\<rparr>], items = []\<rparr>,
    [Redirect ''/category/65a0000000000000000000ff''])"
proof -
  let ?s = "\<lparr>categories = [\<lparr>cat_id = ObjectId ''65a000000000000000000001'',
      cat_name = ''Toys'', cat_description = ''For children''\<rparr>], items = []\<rparr>"
  have v: "validationResult \<lparr>name = ''Tools'', description = ''Hand tools''\<rparr> = []"
    by code_simp
  have c: "castObjectId ''65A0000000000000000000FF'' = Inr (ObjectId ''65a0000000000000000000ff'')" by code_simp
  from c update_absent_silent_redirect [OF v,
      of "''65A0000000000000000000FF''" ?s "ObjectId ''65a000000000000000000009''"]
  have "category_update_post ?s (ObjectId ''65a000000000000000000009'') ''65A0000000000000000000FF'' \<lparr>name = ''Tools'', description = ''Hand tools''\<rparr> =
      (?s, [Redirect ''/category/65a0000000000000000000ff''])"
    by simp
  with v c show ?thesis by simp
qed

text \<open>
  C9 does not hold for every request: no Category has the id \<open>abc\<close>, the fields are
  valid, and the handler does not redirect but fails with the \<open>CastError\<close>.
\<close>

theorem update_malformed_counterexample:
  "validationResult \<lparr>name = ''Tools'', description = ''Hand tools''\<rparr> = [] \<and>
   category_update_post
      \<lparr>categories = [\<lparr>cat_id = ObjectId ''65a000000000000000000001'',
        cat_name = ''Toys'', cat_description = ''For children''\<rparr>], items = []\<rparr>
     (ObjectId ''65a000000000000000000009'') ''abc'' \<lparr>name = ''Tools'',
         description = ''Hand tools''\<rparr> =
   (
      \<lparr>categories = [\<lparr>cat_id = ObjectId ''65a000000000000000000001'',
        cat_name = ''Toys'', cat_description = ''For children''\<rparr>], items = []\<rparr>,
    [Next (CastError ''abc'')])"
  by code_simp

end
